theory Spec2Isabelle
  imports Complex_Main "HOL-Library.List_Lexorder" "HOL-Library.Char_ord"
begin

section \<open>Record store\<close>

text \<open>
  The routes of \<^verbatim>\<open>salesRoutes\<close> (src/unnamed/part_005, lines 371--982) and of
  \<^verbatim>\<open>src/backend/routes/customerLotsRoutes.js\<close> work on tables of a record store.
  A table is the list of its rows; a row is a record holding the columns the routes
  read or write. Identifiers are UUID strings. Monetary amounts are JavaScript numbers
  in the source and rationals here; no property below depends on an amount.
\<close>

type_synonym uuid = string
type_synonym iso_timestamp = string

datatype inventory_status = AVAILABLE | BLOCKED | SOLD

datatype lot_status = PENDING | ACCEPTED | REJECTED | EXPIRED

datatype sales_status = DRAFT | CONFIRMED

datatype config_status = Cfg_pending | Cfg_processing | Cfg_completed

record inventory_row =
  inv_id :: uuid
  inv_lot_number :: string
  inv_indent_number :: string
  inv_branch :: string
  inv_variety :: string
  inv_fibre_length :: string
  inv_bid_price :: "rat option"
  inv_status :: inventory_status
  inv_created_at :: nat
  inv_updated_at :: iso_timestamp

record line_specs =
  spec_fibre_length :: "string option"
  spec_variety :: "string option"

record broker_row =
  broker_id :: uuid
  commission_rate :: "rat option"

record customer_row =
  cust_id :: uuid
  cust_email :: string

record config_row =
  cfg_id :: uuid
  cfg_requested_quantity :: nat
  cfg_line_specs :: "line_specs option"
  cfg_priority_branch :: "string option"
  cfg_customer_id :: uuid
  cfg_broker_id :: uuid
  cfg_status :: config_status
  cfg_updated_at :: iso_timestamp

record sales_row =
  sale_id :: uuid
  sale_config_id :: uuid
  sale_indent_numbers :: "string list"
  sale_total_bales :: nat
  sale_total_value :: rat
  sale_broker_commission :: rat
  sale_status :: sales_status
  sale_created_by :: uuid

record selection_row =
  sel_sales_id :: uuid
  sel_inventory_id :: uuid
  sel_lot_number :: string
  sel_indent_number :: string
  sel_quantity :: nat
  sel_price :: rat
  sel_status :: string

record assignment_row =
  asg_id :: uuid
  asg_customer_id :: uuid
  asg_inventory_id :: uuid
  asg_sales_id :: uuid
  asg_lot_status :: lot_status
  asg_window_start_date :: string
  asg_window_end_date :: string
  asg_assigned_at :: nat
  asg_responded_by :: "uuid option"
  asg_responded_at :: "iso_timestamp option"

record audit_row =
  aud_table_name :: string
  aud_record_id :: uuid
  aud_action :: string
  aud_user_id :: uuid

text \<open>
  The two outbound n8n webhooks: the lot-acceptance confirmation (sales id, accepted
  count, required quantity, confirming user) and the draft notification (sales id,
  total bales, total value, creating user).
\<close>

datatype outbound =
    Lot_Acceptance_Confirmation uuid nat nat uuid
  | Sales_Draft_Notification uuid nat rat uuid

record world =
  inventory_table :: "inventory_row list"
  sales_configuration :: "config_row list"
  broker_info :: "broker_row list"
  customer_info :: "customer_row list"
  sales_table :: "sales_row list"
  lot_selected_contract :: "selection_row list"
  customer_assignment_table :: "assignment_row list"
  audit_log :: "audit_row list"
  n8n_posts :: "outbound list"

record user =
  user_id :: uuid
  user_role :: string
  user_email :: string

text \<open>
  What a request takes from outside the store: the clock (\<^verbatim>\<open>new Date().toISOString()\<close>,
  read once per request here), the identifier the store gives to an inserted sales record,
  and which of the calls whose error the handler inspects report one. A call whose result
  the handler does not inspect is taken to be carried out. The request bodies have passed
  the route's Joi schema: \<^verbatim>\<open>requested_qty\<close> is an integer, at least 1.
\<close>

datatype call_site =
    ConfigFetch | LotsFetch | SalesInsert | SelectionsInsert | BlockUpdate
  | CustomerFetch | AssignmentsFetch | AssignmentFetch | AssignmentUpdate
  | SalesInfoFetch | AcceptedLotsFetch | WebhookPost

record env =
  env_now :: iso_timestamp
  env_new_id :: uuid
  env_fails :: "call_site \<Rightarrow> bool"

text \<open>An error response: HTTP status and message.\<close>

datatype http_error = Err nat string

text \<open>\<^verbatim>\<open>.single()\<close>: the row when the query yields exactly one, an error otherwise.\<close>

definition single :: "'a list \<Rightarrow> 'a option" where
  "single rows = (case rows of [r] \<Rightarrow> Some r | _ \<Rightarrow> None)"

text \<open>JavaScript truthiness of a nullable string column: null and the empty string are falsy.\<close>

definition truthy :: "string option \<Rightarrow> bool" where
  "truthy v = (case v of None \<Rightarrow> False | Some s \<Rightarrow> s \<noteq> [])"

text \<open>\<^verbatim>\<open>lot.bid_price || 0\<close>\<close>

definition price_or_0 :: "inventory_row \<Rightarrow> rat" where
  "price_or_0 lot = (case inv_bid_price lot of None \<Rightarrow> 0 | Some p \<Rightarrow> p)"

definition fetch_config :: "env \<Rightarrow> uuid \<Rightarrow> world \<Rightarrow> config_row option" where
  "fetch_config e sales_config_id w =
     (if env_fails e ConfigFetch then None
      else single (filter (\<lambda>c. cfg_id c = sales_config_id) (sales_configuration w)))"

section \<open>Selection limits on IEEE doubles\<close>

text \<open>
  \<^verbatim>\<open>const extra = Math.floor(base * 0.2); const maxLimit = base + extra;\<close>
  are computed on doubles. The literal \<^verbatim>\<open>0.2\<close> is the double
  \<open>3602879701896397 / 2^54\<close>, so the exact product of an integer \<open>base\<close> with it is
  \<open>base * 3602879701896397 / 2^54\<close>; the double product is that value rounded to 53
  significant bits, ties to even, and \<^verbatim>\<open>Math.floor\<close> of it is its quotient by \<open>2^54\<close>.
  The sum \<^verbatim>\<open>base + extra\<close> of two integers is rounded the same way.

  \<open>bit_length n\<close> is the number of binary digits of \<open>n\<close>; \<open>round_half_even s n\<close> rounds
  \<open>n\<close> to the nearest multiple of \<open>2^s\<close>, a tie going to the even quotient; \<open>round53\<close>
  keeps 53 significant bits. The exponent range of a double plays no role for the values
  that occur.
\<close>

fun bit_length :: "nat \<Rightarrow> nat" where
  "bit_length n = (if n = 0 then 0 else Suc (bit_length (n div 2)))"

declare bit_length.simps [simp del]

definition round_half_even :: "nat \<Rightarrow> nat \<Rightarrow> nat" where
  "round_half_even s n =
     (let d = 2 ^ s; q = n div d; r = n mod d
      in if d < 2 * r \<or> (2 * r = d \<and> odd q) then (q + 1) * d else q * d)"

definition round53 :: "nat \<Rightarrow> nat" where
  "round53 n = round_half_even (bit_length n - 53) n"

definition Math_floor_times_0_2 :: "nat \<Rightarrow> nat" where
  "Math_floor_times_0_2 base = round53 (base * 3602879701896397) div 2 ^ 54"

definition js_plus :: "nat \<Rightarrow> nat \<Rightarrow> nat" where
  "js_plus a b = round53 (a + b)"

section \<open>Selection engine: POST /api/sales/auto-select-lots\<close>

record selection_limits =
  requested :: nat
  max_allowed :: nat
  auto_selected_count :: nat

record auto_select_data =
  available_lots :: "inventory_row list"
  auto_selected :: "inventory_row list"
  limits :: "selection_limits option"
  total_value :: "rat option"
  out_of_stock :: bool

text \<open>
  The query on \<^verbatim>\<open>inventory_table\<close>: status AVAILABLE, the line specs that are truthy,
  the priority branch when truthy, oldest first. Rows with equal \<^verbatim>\<open>created_at\<close> keep
  table order.
\<close>

definition lotsQuery :: "config_row \<Rightarrow> inventory_row list \<Rightarrow> inventory_row list" where
  "lotsQuery salesConfig rows =
     (let q0 = filter (\<lambda>l. inv_status l = AVAILABLE) rows;
          q1 = (case cfg_line_specs salesConfig of
                  None \<Rightarrow> q0
                | Some specs \<Rightarrow>
                   (let qa = (if truthy (spec_fibre_length specs)
                              then filter (\<lambda>l. Some (inv_fibre_length l) = spec_fibre_length specs) q0
                              else q0)
                    in if truthy (spec_variety specs)
                       then filter (\<lambda>l. Some (inv_variety l) = spec_variety specs) qa
                       else qa));
          q2 = (if truthy (cfg_priority_branch salesConfig)
                then filter (\<lambda>l. Some (inv_branch l) = cfg_priority_branch salesConfig) q1
                else q1)
      in sort_key inv_created_at q2)"

definition auto_select_lots :: "env \<Rightarrow> uuid \<Rightarrow> nat \<Rightarrow> world \<Rightarrow> http_error + auto_select_data" where
  "auto_select_lots e sales_config_id requested_qty w =
     (case fetch_config e sales_config_id w of
        None \<Rightarrow> Inl (Err 404 ''Sales configuration not found'')
      | Some salesConfig \<Rightarrow>
         (let base = requested_qty;
              extra = Math_floor_times_0_2 base;
              maxLimit = js_plus base extra
          in if env_fails e LotsFetch then Inl (Err 500 ''Failed to fetch available lots'')
             else
              (let availableLots = take maxLimit (lotsQuery salesConfig (inventory_table w))
               in if availableLots = []
                  then Inr \<lparr>available_lots = [], auto_selected = [], limits = None,
                             total_value = None, out_of_stock = True\<rparr>
                  else
                   (let autoSelected = take (min maxLimit (length availableLots)) availableLots;
                        totalValue = foldl (\<lambda>sum lot. sum + price_or_0 lot) 0 autoSelected
                    in Inr \<lparr>available_lots = availableLots, auto_selected = autoSelected,
                              limits = Some \<lparr>requested = requested_qty, max_allowed = maxLimit,
                                              auto_selected_count = length autoSelected\<rparr>,
                              total_value = Some totalValue, out_of_stock = False\<rparr>))))"

section \<open>Manual selection: POST /api/sales/manual-lot-selection\<close>

text \<open>Decimal digits, as template literals and \<^verbatim>\<open>toISOString\<close> print numbers.\<close>

definition digit_char :: "nat \<Rightarrow> char" where
  "digit_char k = char_of (48 + k)"

fun show_nat :: "nat \<Rightarrow> string" where
  "show_nat n = (if n < 10 then [] else show_nat (n div 10)) @ [digit_char (n mod 10)]"

declare show_nat.simps [simp del]

record manual_selection_data =
  selected_lots_found :: "inventory_row list"
  total_selected :: nat
  required_minimum :: nat
  manual_total_value :: rat
  validation_passed :: bool

definition manual_lot_selection ::
  "env \<Rightarrow> uuid \<Rightarrow> uuid list \<Rightarrow> world \<Rightarrow> http_error + manual_selection_data" where
  "manual_lot_selection e sales_config_id selected_lots w =
     (case fetch_config e sales_config_id w of
        None \<Rightarrow> Inl (Err 404 ''Sales configuration not found'')
      | Some salesConfig \<Rightarrow>
         if env_fails e LotsFetch then Inl (Err 500 ''Failed to fetch selected lots'')
         else
          (let lots = filter (\<lambda>l. inv_id l \<in> set selected_lots \<and> inv_status l = AVAILABLE)
                        (inventory_table w);
               requestedQty = cfg_requested_quantity salesConfig;
               selectedCount = length lots
           in if selectedCount < requestedQty
              then Inl (Err 400 (''Please select at least '' @ show_nat requestedQty
                                  @ '' lots. Currently selected: '' @ show_nat selectedCount))
              else
               (let totalValue = foldl (\<lambda>sum lot. sum + price_or_0 lot) 0 lots
                in Inr \<lparr>selected_lots_found = lots, total_selected = selectedCount,
                          required_minimum = requestedQty, manual_total_value = totalValue,
                          validation_passed = True\<rparr>)))"

section \<open>Order draft manager: POST /api/sales/save-draft\<close>

record save_draft_data =
  sales_record :: sales_row
  blocked_lots :: nat
  draft_total_value :: rat
  draft_broker_commission :: rat

text \<open>\<^verbatim>\<open>[...new Set(xs)]\<close>: duplicates removed, first occurrences kept in order.\<close>

definition new_Set :: "'a list \<Rightarrow> 'a list" where
  "new_Set xs = rev (remdups (rev xs))"

text \<open>\<^verbatim>\<open>.update({ status: 'BLOCKED', updated_at: ... }).in('id', selected_lots)\<close>\<close>

definition block_lots :: "iso_timestamp \<Rightarrow> uuid list \<Rightarrow> inventory_row list \<Rightarrow> inventory_row list" where
  "block_lots now ids rows =
     map (\<lambda>l. if inv_id l \<in> set ids then l\<lparr>inv_status := BLOCKED, inv_updated_at := now\<rparr> else l) rows"

text \<open>\<^verbatim>\<open>.update({ status: 'processing', updated_at: ... }).eq('id', sales_config_id)\<close>\<close>

definition mark_processing :: "iso_timestamp \<Rightarrow> uuid \<Rightarrow> config_row list \<Rightarrow> config_row list" where
  "mark_processing now sales_config_id rows =
     map (\<lambda>c. if cfg_id c = sales_config_id
               then c\<lparr>cfg_status := Cfg_processing, cfg_updated_at := now\<rparr> else c) rows"

definition lotSelections :: "uuid \<Rightarrow> inventory_row list \<Rightarrow> selection_row list" where
  "lotSelections sid lots =
     map (\<lambda>lot. \<lparr>sel_sales_id = sid, sel_inventory_id = inv_id lot,
                  sel_lot_number = inv_lot_number lot, sel_indent_number = inv_indent_number lot,
                  sel_quantity = 1, sel_price = price_or_0 lot, sel_status = ''SELECTED''\<rparr>) lots"

text \<open>
  The handler body is one \<^verbatim>\<open>try\<close> block: a thrown error ends the request with status 500
  and leaves what was written before it. \<^verbatim>\<open>salesConfig.broker_info\<close> is the joined broker
  row, null when there is none, and reading its \<^verbatim>\<open>commission_rate\<close> then throws. The
  messages of thrown errors are given up to the store's own text.
\<close>

definition save_draft ::
  "env \<Rightarrow> user \<Rightarrow> uuid \<Rightarrow> uuid list \<Rightarrow> world \<Rightarrow> (http_error + save_draft_data) \<times> world" where
  "save_draft e u sales_config_id selected_lots w =
     (case fetch_config e sales_config_id w of
        None \<Rightarrow> (Inl (Err 404 ''Sales configuration not found''), w)
      | Some salesConfig \<Rightarrow>
         if env_fails e LotsFetch then (Inl (Err 500 ''Failed to fetch selected lots''), w)
         else
          (let lots = filter (\<lambda>l. inv_id l \<in> set selected_lots) (inventory_table w);
               totalBales = length lots;
               totalValue = foldl (\<lambda>sum lot. sum + price_or_0 lot) 0 lots
           in case find (\<lambda>b. broker_id b = cfg_broker_id salesConfig) (broker_info w) of
                None \<Rightarrow> (Inl (Err 500 ''Cannot read properties of null''), w)
              | Some broker \<Rightarrow>
                 (let brokerCommission =
                        (totalValue * (case commission_rate broker of None \<Rightarrow> 0 | Some r \<Rightarrow> r)) / 100;
                      salesRecord = \<lparr>sale_id = env_new_id e, sale_config_id = sales_config_id,
                                      sale_indent_numbers = new_Set (map inv_indent_number lots),
                                      sale_total_bales = totalBales, sale_total_value = totalValue,
                                      sale_broker_commission = brokerCommission,
                                      sale_status = DRAFT, sale_created_by = user_id u\<rparr>
                  in if env_fails e SalesInsert
                     then (Inl (Err 500 ''Failed to create sales record''), w)
                     else
                      (let w1 = w\<lparr>sales_table := sales_table w @ [salesRecord]\<rparr>
                       in if env_fails e SelectionsInsert
                          then (Inl (Err 500 ''Failed to save lot selections''), w1)
                          else
                           (let w2 = w1\<lparr>lot_selected_contract :=
                                          lot_selected_contract w1 @ lotSelections (sale_id salesRecord) lots\<rparr>
                            in if env_fails e BlockUpdate
                               then (Inl (Err 500 ''Failed to block lots''), w2)
                               else
                                (let w3 = w2\<lparr>inventory_table :=
                                               block_lots (env_now e) selected_lots (inventory_table w2)\<rparr>;
                                     w4 = w3\<lparr>sales_configuration :=
                                               mark_processing (env_now e) sales_config_id
                                                 (sales_configuration w3)\<rparr>;
                                     w5 = w4\<lparr>audit_log := audit_log w4 @
                                               [\<lparr>aud_table_name = ''sales_table'',
                                                 aud_record_id = sale_id salesRecord,
                                                 aud_action = ''SALES_DRAFT_CREATED'',
                                                 aud_user_id = user_id u\<rparr>]\<rparr>;
                                     w6 = (if env_fails e WebhookPost then w5
                                           else w5\<lparr>n8n_posts := n8n_posts w5 @
                                                  [Sales_Draft_Notification (sale_id salesRecord)
                                                     totalBales totalValue (user_id u)]\<rparr>)
                                 in (Inr \<lparr>sales_record = salesRecord, blocked_lots = length lots,
                                           draft_total_value = totalValue,
                                           draft_broker_commission = brokerCommission\<rparr>, w6)))))))"

section \<open>Customer routes: src/backend/routes/customerLotsRoutes.js\<close>

text \<open>
  \<^verbatim>\<open>toISOString\<close> prints a date of the years 0 to 9999 as \<^verbatim>\<open>YYYY-MM-DD\<close>, zero-padded,
  followed by \<^verbatim>\<open>T\<close> and the time of day.
\<close>

fun pad :: "nat \<Rightarrow> nat \<Rightarrow> string" where
  "pad 0 k = []"
| "pad (Suc n) k = pad n (k div 10) @ [digit_char (k mod 10)]"

definition toISODate :: "nat \<Rightarrow> nat \<Rightarrow> nat \<Rightarrow> string" where
  "toISODate y m d = pad 4 y @ ''-'' @ pad 2 m @ ''-'' @ pad 2 d"

text \<open>\<^verbatim>\<open>new Date().toISOString().split('T')[0]\<close>: the text before the first \<^verbatim>\<open>T\<close>.\<close>

definition currentDate :: "env \<Rightarrow> string" where
  "currentDate e = takeWhile (\<lambda>c. c \<noteq> CHR ''T'') (env_now e)"

text \<open>
  The customer a request acts for: the user itself when its role is \<^verbatim>\<open>customer\<close>,
  otherwise the \<^verbatim>\<open>customer_info\<close> row with the user's email, if the lookup yields one.
\<close>

definition customerId_of :: "env \<Rightarrow> user \<Rightarrow> world \<Rightarrow> uuid option" where
  "customerId_of e u w =
     (if user_role u = ''customer'' then Some (user_id u)
      else if env_fails e CustomerFetch then None
      else map_option cust_id (single (filter (\<lambda>c. cust_email c = user_email u) (customer_info w))))"

definition isWithinWindow :: "env \<Rightarrow> assignment_row \<Rightarrow> bool" where
  "isWithinWindow e assignment = (currentDate e \<le> asg_window_end_date assignment)"

definition isPending :: "assignment_row \<Rightarrow> bool" where
  "isPending assignment = (asg_lot_status assignment = PENDING)"

subsection \<open>Confirmation trigger\<close>

text \<open>
  \<^verbatim>\<open>checkAndTriggerConfirmation(salesId, user)\<close>. The whole body is in a \<^verbatim>\<open>try\<close> whose
  \<^verbatim>\<open>catch\<close> only logs, so a missing joined configuration (a TypeError on
  \<^verbatim>\<open>salesInfo.sales_configuration.requested_quantity\<close>) and a failed webhook post end the
  function with nothing more written.
\<close>

definition checkAndTriggerConfirmation :: "env \<Rightarrow> uuid \<Rightarrow> user \<Rightarrow> world \<Rightarrow> world" where
  "checkAndTriggerConfirmation e salesId u w =
     (if env_fails e SalesInfoFetch then w
      else case single (filter (\<lambda>s. sale_id s = salesId) (sales_table w)) of
        None \<Rightarrow> w
      | Some salesInfo \<Rightarrow>
         if env_fails e AcceptedLotsFetch then w
         else
          (let acceptedLots = filter (\<lambda>a. asg_sales_id a = salesId \<and> asg_lot_status a = ACCEPTED)
                                (customer_assignment_table w);
               acceptedCount = length acceptedLots
           in case find (\<lambda>c. cfg_id c = sale_config_id salesInfo) (sales_configuration w) of
                None \<Rightarrow> w
              | Some cfg \<Rightarrow>
                 (let requiredQuantity = cfg_requested_quantity cfg
                  in if acceptedCount \<ge> requiredQuantity
                     then if env_fails e WebhookPost then w
                          else w\<lparr>n8n_posts := n8n_posts w @
                                   [Lot_Acceptance_Confirmation salesId acceptedCount requiredQuantity (user_id u)],
                                 audit_log := audit_log w @
                                   [\<lparr>aud_table_name = ''sales_table'', aud_record_id = salesId,
                                     aud_action = ''CONFIRMATION_SENT'', aud_user_id = user_id u\<rparr>]\<rparr>
                     else w)))"

subsection \<open>POST /api/customer/accept and /api/customer/reject\<close>

definition fetch_assignment :: "env \<Rightarrow> uuid \<Rightarrow> world \<Rightarrow> assignment_row option" where
  "fetch_assignment e assignment_id w =
     (if env_fails e AssignmentFetch then None
      else single (filter (\<lambda>a. asg_id a = assignment_id) (customer_assignment_table w)))"

text \<open>
  \<^verbatim>\<open>.update({ lot_status, responded_by, responded_at }).eq('id', assignment_id)\<close> and
  \<^verbatim>\<open>.update({ status, updated_at }).eq('id', assignment.inventory_id)\<close>
\<close>

definition update_assignment ::
  "uuid \<Rightarrow> lot_status \<Rightarrow> uuid \<Rightarrow> iso_timestamp \<Rightarrow> assignment_row list \<Rightarrow> assignment_row list" where
  "update_assignment assignment_id st actor now rows =
     map (\<lambda>a. if asg_id a = assignment_id
               then a\<lparr>asg_lot_status := st, asg_responded_by := Some actor, asg_responded_at := Some now\<rparr>
               else a) rows"

definition update_inventory ::
  "uuid \<Rightarrow> inventory_status \<Rightarrow> iso_timestamp \<Rightarrow> inventory_row list \<Rightarrow> inventory_row list" where
  "update_inventory inventory_id st now rows =
     map (\<lambda>l. if inv_id l = inventory_id then l\<lparr>inv_status := st, inv_updated_at := now\<rparr> else l) rows"

text \<open>
  The four refusals of accept and reject, by the names the specification gives them. A
  failed update of the assignment is thrown and answered with status 500; its message is
  given up to the store's own text.
\<close>

definition Forbidden :: http_error where
  "Forbidden = Err 403 ''Not authorized to modify this assignment''"

definition WindowExpired :: http_error where
  "WindowExpired = Err 400 ''Assignment window has expired''"

definition AlreadyResolved :: http_error where
  "AlreadyResolved = Err 400 ''Assignment has already been responded to''"

definition NotFound :: http_error where
  "NotFound = Err 404 ''Assignment not found''"

definition accept :: "env \<Rightarrow> user \<Rightarrow> uuid \<Rightarrow> world \<Rightarrow> (http_error + assignment_row) \<times> world" where
  "accept e u assignment_id w =
     (case fetch_assignment e assignment_id w of
        None \<Rightarrow> (Inl NotFound, w)
      | Some assignment \<Rightarrow>
         if Some (asg_customer_id assignment) \<noteq> customerId_of e u w then (Inl Forbidden, w)
         else if currentDate e > asg_window_end_date assignment then (Inl WindowExpired, w)
         else if asg_lot_status assignment \<noteq> PENDING then (Inl AlreadyResolved, w)
         else if env_fails e AssignmentUpdate then (Inl (Err 500 ''Failed to update assignment''), w)
         else
          (let w1 = w\<lparr>customer_assignment_table :=
                        update_assignment assignment_id ACCEPTED (user_id u) (env_now e)
                          (customer_assignment_table w)\<rparr>;
               updatedAssignment = assignment\<lparr>asg_lot_status := ACCEPTED,
                                     asg_responded_by := Some (user_id u),
                                     asg_responded_at := Some (env_now e)\<rparr>;
               w2 = w1\<lparr>inventory_table :=
                         update_inventory (asg_inventory_id assignment) SOLD (env_now e) (inventory_table w1)\<rparr>;
               w3 = w2\<lparr>audit_log := audit_log w2 @
                         [\<lparr>aud_table_name = ''customer_assignment_table'', aud_record_id = assignment_id,
                           aud_action = ''ACCEPTED'', aud_user_id = user_id u\<rparr>]\<rparr>;
               w4 = checkAndTriggerConfirmation e (asg_sales_id assignment) u w3
           in (Inr updatedAssignment, w4)))"

definition reject :: "env \<Rightarrow> user \<Rightarrow> uuid \<Rightarrow> world \<Rightarrow> (http_error + assignment_row) \<times> world" where
  "reject e u assignment_id w =
     (case fetch_assignment e assignment_id w of
        None \<Rightarrow> (Inl NotFound, w)
      | Some assignment \<Rightarrow>
         if Some (asg_customer_id assignment) \<noteq> customerId_of e u w then (Inl Forbidden, w)
         else if currentDate e > asg_window_end_date assignment then (Inl WindowExpired, w)
         else if asg_lot_status assignment \<noteq> PENDING then (Inl AlreadyResolved, w)
         else if env_fails e AssignmentUpdate then (Inl (Err 500 ''Failed to update assignment''), w)
         else
          (let w1 = w\<lparr>customer_assignment_table :=
                        update_assignment assignment_id REJECTED (user_id u) (env_now e)
                          (customer_assignment_table w)\<rparr>;
               updatedAssignment = assignment\<lparr>asg_lot_status := REJECTED,
                                     asg_responded_by := Some (user_id u),
                                     asg_responded_at := Some (env_now e)\<rparr>;
               w2 = w1\<lparr>inventory_table :=
                         update_inventory (asg_inventory_id assignment) AVAILABLE (env_now e) (inventory_table w1)\<rparr>;
               w3 = w2\<lparr>audit_log := audit_log w2 @
                         [\<lparr>aud_table_name = ''customer_assignment_table'', aud_record_id = assignment_id,
                           aud_action = ''REJECTED'', aud_user_id = user_id u\<rparr>]\<rparr>
           in (Inr updatedAssignment, w3)))"

subsection \<open>GET /api/customer/lots\<close>

record lots_summary =
  total_assigned :: nat
  total_accepted :: nat
  total_rejected :: nat
  total_pending :: nat
  total_expired :: nat

record lots_data =
  active :: "assignment_row list"
  expired :: "assignment_row list"
  responded :: "assignment_row list"
  summary :: lots_summary

text \<open>
  The listing sorts the customer's assignments by \<^verbatim>\<open>assigned_at\<close>, newest first, sorts
  them into active, expired and responded, and writes the expiry of the pending ones past
  their window to both tables before it answers. The two updates are not inspected.
\<close>

definition expire_assignments :: "iso_timestamp \<Rightarrow> uuid list \<Rightarrow> assignment_row list \<Rightarrow> assignment_row list" where
  "expire_assignments now expiredIds rows =
     map (\<lambda>a. if asg_id a \<in> set expiredIds
               then a\<lparr>asg_lot_status := EXPIRED, asg_responded_at := Some now\<rparr> else a) rows"

definition release_inventory :: "uuid list \<Rightarrow> inventory_row list \<Rightarrow> inventory_row list" where
  "release_inventory expiredInventoryIds rows =
     map (\<lambda>l. if inv_id l \<in> set expiredInventoryIds then l\<lparr>inv_status := AVAILABLE\<rparr> else l) rows"

definition customer_lots :: "env \<Rightarrow> user \<Rightarrow> world \<Rightarrow> (http_error + lots_data) \<times> world" where
  "customer_lots e u w =
     (case customerId_of e u w of
        None \<Rightarrow> (Inl (Err 404 ''Customer record not found''), w)
      | Some customerId \<Rightarrow>
         if env_fails e AssignmentsFetch then (Inl (Err 500 ''Failed to fetch lot assignments''), w)
         else
          (let assignments = rev (sort_key asg_assigned_at
                                (filter (\<lambda>a. asg_customer_id a = customerId) (customer_assignment_table w)));
               activeAssignments = filter (\<lambda>a. isPending a \<and> isWithinWindow e a) assignments;
               expiredAssignments = filter (\<lambda>a. isPending a \<and> \<not> isWithinWindow e a) assignments;
               respondedAssignments = filter (\<lambda>a. \<not> isPending a) assignments;
               w2 = (if expiredAssignments \<noteq> []
                     then
                      (let expiredIds = map asg_id expiredAssignments;
                           w1 = w\<lparr>customer_assignment_table :=
                                    expire_assignments (env_now e) expiredIds (customer_assignment_table w)\<rparr>;
                           expiredInventoryIds = map asg_inventory_id expiredAssignments
                       in w1\<lparr>inventory_table := release_inventory expiredInventoryIds (inventory_table w1)\<rparr>)
                     else w);
               expiredShown = map (\<lambda>a. a\<lparr>asg_lot_status := EXPIRED, asg_responded_at := Some (env_now e)\<rparr>)
                                expiredAssignments;
               assignmentsShown = map (\<lambda>a. if isPending a \<and> \<not> isWithinWindow e a
                                            then a\<lparr>asg_lot_status := EXPIRED, asg_responded_at := Some (env_now e)\<rparr>
                                            else a) assignments
           in (Inr \<lparr>active = activeAssignments, expired = expiredShown, responded = respondedAssignments,
                     summary = \<lparr>total_assigned = length assignments,
                                 total_accepted = length (filter (\<lambda>a. asg_lot_status a = ACCEPTED) assignmentsShown),
                                 total_rejected = length (filter (\<lambda>a. asg_lot_status a = REJECTED) assignmentsShown),
                                 total_pending = length activeAssignments,
                                 total_expired = length expiredShown\<rparr>\<rparr>, w2)))"


text \<open>
  The sales record \<^verbatim>\<open>save-draft\<close> inserts once the order and its broker are read, and the
  store calls it depends on.
\<close>

definition salesRecord_of :: "env \<Rightarrow> user \<Rightarrow> uuid \<Rightarrow> uuid list \<Rightarrow> broker_row \<Rightarrow> world \<Rightarrow> sales_row" where
  "salesRecord_of e u sales_config_id selected_lots broker w =
     (let lots = filter (\<lambda>l. inv_id l \<in> set selected_lots) (inventory_table w);
          totalValue = foldl (\<lambda>sum lot. sum + price_or_0 lot) 0 lots
      in \<lparr>sale_id = env_new_id e, sale_config_id = sales_config_id,
          sale_indent_numbers = new_Set (map inv_indent_number lots),
          sale_total_bales = length lots, sale_total_value = totalValue,
          sale_broker_commission =
            (totalValue * (case commission_rate broker of None \<Rightarrow> 0 | Some r \<Rightarrow> r)) / 100,
          sale_status = DRAFT, sale_created_by = user_id u\<rparr>)"

definition draft_store_ok :: "env \<Rightarrow> bool" where
  "draft_store_ok e = (\<not> env_fails e LotsFetch \<and> \<not> env_fails e SalesInsert
                       \<and> \<not> env_fails e SelectionsInsert \<and> \<not> env_fails e BlockUpdate)"

text \<open>The number of ACCEPTED assignments of a sales order, as the trigger counts them.\<close>

definition acceptedCount_of :: "uuid \<Rightarrow> world \<Rightarrow> nat" where
  "acceptedCount_of salesId w =
     length (filter (\<lambda>a. asg_sales_id a = salesId \<and> asg_lot_status a = ACCEPTED)
               (customer_assignment_table w))"

section \<open>Specimen data\<close>

text \<open>A customer, another user, and small tables for the concrete instances below.\<close>

definition ex_env :: "iso_timestamp \<Rightarrow> env" where
  "ex_env now = \<lparr>env_now = now, env_new_id = ''sale-2'', env_fails = (\<lambda>_. False)\<rparr>"

definition ex_customer :: user where
  "ex_customer = \<lparr>user_id = ''cust-1'', user_role = ''customer'', user_email = ''one@example.com''\<rparr>"

definition ex_stranger :: user where
  "ex_stranger = \<lparr>user_id = ''cust-2'', user_role = ''customer'', user_email = ''two@example.com''\<rparr>"

definition ex_lot :: "uuid \<Rightarrow> inventory_status \<Rightarrow> nat \<Rightarrow> inventory_row" where
  "ex_lot i st t = \<lparr>inv_id = i, inv_lot_number = i, inv_indent_number = ''IND-1'', inv_branch = ''Nagpur'',
                     inv_variety = ''Shankar-6'', inv_fibre_length = ''29'', inv_bid_price = Some 1000,
                     inv_status = st, inv_created_at = t, inv_updated_at = ''2024-05-01T00:00:00.000Z''\<rparr>"

definition ex_assignment :: "uuid \<Rightarrow> uuid \<Rightarrow> lot_status \<Rightarrow> assignment_row" where
  "ex_assignment i lot st = \<lparr>asg_id = i, asg_customer_id = ''cust-1'', asg_inventory_id = lot,
                              asg_sales_id = ''sale-1'', asg_lot_status = st,
                              asg_window_start_date = ''2024-05-03'', asg_window_end_date = ''2024-05-10'',
                              asg_assigned_at = 1, asg_responded_by = None, asg_responded_at = None\<rparr>"

definition ex_config :: "nat \<Rightarrow> config_row" where
  "ex_config n = \<lparr>cfg_id = ''cfg-1'', cfg_requested_quantity = n, cfg_line_specs = None,
                   cfg_priority_branch = None, cfg_customer_id = ''cust-1'', cfg_broker_id = ''brk-1'',
                   cfg_status = Cfg_pending, cfg_updated_at = ''2024-05-01T00:00:00.000Z''\<rparr>"

definition ex_sale :: sales_row where
  "ex_sale = \<lparr>sale_id = ''sale-1'', sale_config_id = ''cfg-1'', sale_indent_numbers = [''IND-1''],
               sale_total_bales = 2, sale_total_value = 2000, sale_broker_commission = 20,
               sale_status = DRAFT, sale_created_by = ''admin-1''\<rparr>"

definition ex_broker :: broker_row where
  "ex_broker = \<lparr>broker_id = ''brk-1'', commission_rate = Some 1\<rparr>"

definition ex_world :: "nat \<Rightarrow> inventory_row list \<Rightarrow> sales_row list \<Rightarrow> assignment_row list \<Rightarrow> world" where
  "ex_world n lots sales asgs =
     \<lparr>inventory_table = lots, sales_configuration = [ex_config n],
      broker_info = [ex_broker],
      customer_info = [\<lparr>cust_id = ''cust-1'', cust_email = ''one@example.com''\<rparr>],
      sales_table = sales, lot_selected_contract = [], customer_assignment_table = asgs,
      audit_log = [], n8n_posts = []\<rparr>"

definition ex_admin :: user where
  "ex_admin = \<lparr>user_id = ''admin-1'', user_role = ''admin'', user_email = ''admin@example.com''\<rparr>"

text \<open>\<open>k\<close> AVAILABLE lots of one variety, numbered in intake order.\<close>

definition ex_lots :: "nat \<Rightarrow> inventory_row list" where
  "ex_lots k = map (\<lambda>n. ex_lot (''lot-'' @ show_nat n) AVAILABLE n) [0..<k]"

section \<open>Properties\<close>

lemmas ex_defs = ex_env_def ex_customer_def ex_stranger_def ex_lot_def ex_assignment_def ex_config_def
  ex_sale_def ex_broker_def ex_world_def

subsection \<open>Lookups\<close>

lemma single_Some: "single xs = Some x \<Longrightarrow> xs = [x]"
  by (cases xs) (auto simp: single_def split: list.splits)

lemma filter_singleton_mem: "filter P xs = [x] \<Longrightarrow> x \<in> set xs \<and> P x"
proof -
  assume h: "filter P xs = [x]"
  have "x \<in> set (filter P xs)" by (simp add: h)
  then show ?thesis by simp
qed

lemma fetch_assignment_mem:
  "fetch_assignment e aid w = Some a \<Longrightarrow> a \<in> set (customer_assignment_table w) \<and> asg_id a = aid"
  by (auto simp: fetch_assignment_def split: if_splits dest!: single_Some filter_singleton_mem)

subsection \<open>Selection limits\<close>

lemma bit_length_le: "n < 2 ^ m \<Longrightarrow> bit_length n \<le> m"
proof (induction m arbitrary: n)
  case 0
  then show ?case by (simp add: bit_length.simps)
next
  case (Suc m)
  show ?case
  proof (cases "n = 0")
    case True
    then show ?thesis by (simp add: bit_length.simps)
  next
    case False
    from Suc.prems have "n div 2 < 2 ^ m" by simp
    then have "bit_length (n div 2) \<le> m" by (rule Suc.IH)
    with False show ?thesis by (subst bit_length.simps) simp
  qed
qed

lemma round_half_even_cases:
  "round_half_even s n = (n div 2 ^ s) * 2 ^ s \<or> round_half_even s n = (n div 2 ^ s + 1) * 2 ^ s"
  by (simp add: round_half_even_def Let_def)

lemma round53_exact: "n < 2 ^ 53 \<Longrightarrow> round53 n = n"
proof -
  assume "n < 2 ^ 53"
  then have "bit_length n \<le> 53" by (rule bit_length_le)
  then have "bit_length n - 53 = 0" by simp
  then show ?thesis by (simp add: round53_def round_half_even_def)
qed

lemma Math_floor_times_0_2_exact:
  assumes q: "q < 2 ^ 52"
  shows "Math_floor_times_0_2 q = q div 5"
proof -
  define P :: nat where "P = 2 ^ 54"
  define n where "n = q * 3602879701896397"
  define s where "s = bit_length n - 53"
  define d :: nat where "d = 2 ^ s"
  define R where "R = round53 n"
  define k where "k = q div 5"
  define A where "A = k * P"
  define B where "B = (q mod 5) * P"
  have five: "5 * n = q * P + q"
    by (simp add: n_def P_def)
  have "q = 5 * k + q mod 5"
    by (simp add: k_def)
  then have "q * P = (5 * k + q mod 5) * P" by simp
  then have qP: "q * P = 5 * A + B"
    by (simp add: A_def B_def add_mult_distrib mult.assoc)
  have "q mod 5 \<le> 4" by simp
  then have B: "B \<le> 4 * P"
    unfolding B_def by (rule mult_le_mono1)
  have "n < 2 ^ 52 * 2 ^ 52"
    unfolding n_def using q by (intro mult_strict_mono) simp_all
  then have "n < 2 ^ 104" by simp
  then have "bit_length n \<le> 104" by (rule bit_length_le)
  then have s: "s \<le> 51" by (simp add: s_def)
  then have "d \<le> 2 ^ 51"
    unfolding d_def by (intro power_increasing) simp_all
  then have small: "q + 5 * d < P"
    using q by (simp add: P_def)
  have d_pos: "0 < d" by (simp add: d_def)
  have "s + (54 - s) = 54" using s by simp
  then have "(2::nat) ^ 54 = 2 ^ (s + (54 - s))" by (simp only:)
  also have "\<dots> = 2 ^ s * 2 ^ (54 - s)" by (rule power_add)
  finally have "P = d * 2 ^ (54 - s)"
    unfolding d_def P_def .
  then obtain c :: nat where c: "P = d * c" by blast
  have R_cases: "R = (n div d) * d \<or> R = (n div d + 1) * d"
    unfolding R_def round53_def s_def [symmetric] d_def by (rule round_half_even_cases)
  have lower_n: "A \<le> n"
    using five qP by linarith
  have A_eq: "A = (k * c) * d"
    by (simp add: A_def c mult.assoc mult.commute)
  have "k * c \<le> n div d"
    using lower_n d_pos unfolding A_eq by (simp add: less_eq_div_iff_mult_less_eq)
  then have "(k * c) * d \<le> (n div d) * d"
    by (rule mult_le_mono1)
  then have low: "A \<le> (n div d) * d"
    by (simp only: A_eq)
  have "(n div d) * d \<le> n" by simp
  then have up0: "(n div d + 1) * d \<le> n + d" by (simp add: add_mult_distrib)
  have up: "n + d < A + P"
    using five qP B small by linarith
  define X where "X = (n div d) * d"
  have bounds: "A \<le> R" "R < A + P"
    using R_cases low up0 up unfolding X_def [symmetric] by (auto simp: add_mult_distrib X_def [symmetric])
  have "R div P = k"
  proof (rule div_nat_eqI)
    show "P * k \<le> R" using bounds(1) by (simp add: A_def mult.commute)
    show "R < P * Suc k" using bounds(2) by (simp add: A_def mult.commute)
  qed
  then show ?thesis
    by (simp add: Math_floor_times_0_2_def R_def n_def k_def P_def)
qed

lemma selection_limits_exact:
  assumes q: "q < 2 ^ 52"
  shows "js_plus q (Math_floor_times_0_2 q) = q + q div 5"
proof -
  have "q + q div 5 < 2 ^ 53" using q by simp
  then show ?thesis
    by (simp add: js_plus_def Math_floor_times_0_2_exact [OF q] round53_exact)
qed

lemma bit_length_numeral:
  "bit_length 0 = 0"
  "bit_length (Suc 0) = Suc 0"
  "bit_length (numeral k) = Suc (bit_length (numeral k div 2))"
  by (simp_all add: bit_length.simps [of "Suc 0"] bit_length.simps [of 0] bit_length.simps [of "numeral k"])

lemma double_product_rounds_up:
  "Math_floor_times_0_2 9007199254740989 = 1801439850948198"
  "9007199254740989 div 5 = (1801439850948197 :: nat)"
  by (simp_all add: Math_floor_times_0_2_def round53_def round_half_even_def Let_def bit_length_numeral)

lemma double_sum_rounds_up:
  "js_plus 9007199254740989 1801439850948198 = 10808639105689188"
  by (simp add: js_plus_def round53_def round_half_even_def Let_def bit_length_numeral)

lemma bit_length_lower: "0 < n \<Longrightarrow> 2 ^ (bit_length n - 1) \<le> n"
proof (induction n rule: bit_length.induct)
  case (1 n)
  show ?case
  proof (cases "n div 2 = 0")
    case True
    with 1(2) have "n = 1" by (simp add: div_eq_0_iff) 
    then show ?thesis by (simp add: bit_length_numeral)
  next
    case False
    then have pos: "0 < n div 2" by simp
    from 1(2) have n0: "n \<noteq> 0" by simp
    have ih: "2 ^ (bit_length (n div 2) - 1) \<le> n div 2"
      by (rule 1(1) [OF n0 pos])
    have b: "bit_length n = Suc (bit_length (n div 2))"
      using n0 by (subst bit_length.simps) simp
    have "bit_length (n div 2) = Suc (bit_length (n div 2 div 2))"
      using pos by (subst bit_length.simps) simp
    then have c: "bit_length (n div 2) = Suc (bit_length (n div 2) - 1)"
      by simp
    have "(2::nat) ^ (bit_length n - 1) = 2 ^ bit_length (n div 2)"
      by (simp add: b)
    also have "\<dots> = 2 * 2 ^ (bit_length (n div 2) - 1)"
      by (subst c) simp
    also have "\<dots> \<le> 2 * (n div 2)"
      using ih by simp
    also have "\<dots> \<le> n" by simp
    finally show ?thesis .
  qed
qed

lemma round53_pos: "0 < n \<Longrightarrow> 0 < round53 n"
proof -
  assume n: "0 < n"
  define s where "s = bit_length n - 53"
  have "(2::nat) ^ s \<le> 2 ^ (bit_length n - 1)"
    unfolding s_def by (intro power_increasing) simp_all
  also have "\<dots> \<le> n" by (rule bit_length_lower [OF n])
  finally have le: "2 ^ s \<le> n" .
  then have "1 \<le> n div 2 ^ s"
    by (simp add: less_eq_div_iff_mult_less_eq)
  then have "0 < (n div 2 ^ s) * 2 ^ s" "0 < (n div 2 ^ s + 1) * 2 ^ s"
    by simp_all
  with round_half_even_cases [of s n] show ?thesis
    unfolding round53_def s_def [symmetric] by auto
qed

lemma maxLimit_pos: "1 \<le> q \<Longrightarrow> 1 \<le> js_plus q x"
  using round53_pos [of "q + x"] by (simp add: js_plus_def)

lemma floor_fifth: "\<lfloor>rat_of_nat q * (2 / 10)\<rfloor> = int (q div 5)"
proof -
  have "rat_of_nat q * (2 / 10) = rat_of_nat q / rat_of_nat 5" by simp
  then show ?thesis by (simp only: floor_divide_of_nat_eq)
qed

subsection \<open>Selection engine\<close>

lemma slice_all: "take (min m (length (take m xs))) (take m xs) = take m xs"
  by (simp add: min_def)

lemma auto_select_lots_found:
  assumes cfg: "fetch_config e cid w = Some cfg"
      and store: "\<not> env_fails e LotsFetch"
  shows "\<exists>r. auto_select_lots e cid q w = Inr r
           \<and> auto_selected r = take (js_plus q (Math_floor_times_0_2 q)) (lotsQuery cfg (inventory_table w))
           \<and> out_of_stock r = (take (js_plus q (Math_floor_times_0_2 q)) (lotsQuery cfg (inventory_table w)) = [])
           \<and> (\<not> out_of_stock r \<longrightarrow>
                limits r = Some \<lparr>requested = q, max_allowed = js_plus q (Math_floor_times_0_2 q),
                                 auto_selected_count = length (auto_selected r)\<rparr>)"
  using assms by (simp add: auto_select_lots_def Let_def slice_all del: take_take length_take)

lemma take_Nil_iff: "(take m xs = []) = (xs = [] \<or> m = 0)"
  by (cases xs) simp_all

lemma auto_select_lots_limits:
  assumes cfg: "fetch_config e cid w = Some cfg"
      and store: "\<not> env_fails e LotsFetch"
  shows "\<exists>r. auto_select_lots e cid q w = Inr r
           \<and> auto_selected r = take (js_plus q (Math_floor_times_0_2 q)) (lotsQuery cfg (inventory_table w))
           \<and> out_of_stock r = (take (js_plus q (Math_floor_times_0_2 q)) (lotsQuery cfg (inventory_table w)) = [])
           \<and> limits r =
               (if take (js_plus q (Math_floor_times_0_2 q)) (lotsQuery cfg (inventory_table w)) = []
                then None
                else Some \<lparr>requested = q, max_allowed = js_plus q (Math_floor_times_0_2 q),
                           auto_selected_count =
                             length (take (js_plus q (Math_floor_times_0_2 q))
                                       (lotsQuery cfg (inventory_table w)))\<rparr>)"
  using assms by (simp add: auto_select_lots_def Let_def slice_all del: take_take length_take)

lemma lotsQuery_available:
  "\<forall>l \<in> set (lotsQuery cfg rows). l \<in> set rows \<and> inv_status l = AVAILABLE"
  by (auto simp: lotsQuery_def Let_def split: option.splits)

lemma lotsQuery_sorted: "sorted (map inv_created_at (lotsQuery cfg rows))"
  by (simp add: lotsQuery_def Let_def)

lemma ex_lots_query: "length (lotsQuery (ex_config n) (ex_lots k)) = k"
  by (simp add: lotsQuery_def Let_def truthy_def ex_config_def ex_lots_def ex_lot_def filter_map o_def)

lemma ex_select_setup:
  "fetch_config (ex_env now) ''cfg-1'' (ex_world n lots sales asgs) = Some (ex_config n)"
  "\<not> env_fails (ex_env now) LotsFetch"
  "inventory_table (ex_world n lots sales asgs) = lots"
  by (simp_all add: fetch_config_def single_def ex_defs)

lemma Inr_projr: "x = Inr r \<Longrightarrow> x = Inr (projr x)"
  by simp

text \<open>
  Claim C7, as the handler has it. With the order found and the lots read,
  \<^verbatim>\<open>auto-select-lots\<close> answers with the oldest \<^verbatim>\<open>maxLimit\<close> matching lots, never more
  than \<^verbatim>\<open>maxLimit\<close>, where \<^verbatim>\<open>extra = Math.floor(base * 0.2)\<close> and
  \<^verbatim>\<open>maxLimit = base + extra\<close> are what the handler computes on doubles. The answer is out
  of stock exactly when no lot matches or \<^verbatim>\<open>maxLimit\<close> is 0, which no quantity from 1 on
  gives; any other answer reports the requested quantity, \<^verbatim>\<open>max_allowed = maxLimit\<close> and
  the selected count. For every requested quantity below \<open>2^52\<close> the double product
  rounds to nothing else than the exact one: \<open>extra\<close> is the floor of
  \<open>q \<times> 0.2\<close>, \<open>maxLimit\<close> is \<open>q + extra\<close> and the count is at most
  \<open>q + q div 5\<close>. For \<open>q = 100\<close> that is 20 and 120.
\<close>

theorem C7_selection_ceiling:
  assumes cfg: "fetch_config e cid w = Some cfg"
      and store: "\<not> env_fails e LotsFetch"
  shows "\<exists>r. auto_select_lots e cid q w = Inr r
       \<and> auto_selected r = take (js_plus q (Math_floor_times_0_2 q)) (lotsQuery cfg (inventory_table w))
       \<and> length (auto_selected r) \<le> js_plus q (Math_floor_times_0_2 q)
       \<and> out_of_stock r = (lotsQuery cfg (inventory_table w) = [] \<or> js_plus q (Math_floor_times_0_2 q) = 0)
       \<and> limits r =
           (if lotsQuery cfg (inventory_table w) = [] \<or> js_plus q (Math_floor_times_0_2 q) = 0
            then None
            else Some \<lparr>requested = q, max_allowed = js_plus q (Math_floor_times_0_2 q),
                       auto_selected_count = length (auto_selected r)\<rparr>)
       \<and> (1 \<le> q \<longrightarrow> 1 \<le> js_plus q (Math_floor_times_0_2 q))
       \<and> (q < 2 ^ 52 \<longrightarrow>
            int (Math_floor_times_0_2 q) = \<lfloor>rat_of_nat q * (2 / 10)\<rfloor>
          \<and> js_plus q (Math_floor_times_0_2 q) = q + Math_floor_times_0_2 q
          \<and> length (auto_selected r) \<le> q + q div 5)
       \<and> Math_floor_times_0_2 100 = 20
       \<and> js_plus 100 (Math_floor_times_0_2 100) = 120"
proof -
  from auto_select_lots_limits [OF cfg store, of q] obtain r where
    ok: "auto_select_lots e cid q w = Inr r"
    and sel: "auto_selected r = take (js_plus q (Math_floor_times_0_2 q)) (lotsQuery cfg (inventory_table w))"
    and oos: "out_of_stock r = (take (js_plus q (Math_floor_times_0_2 q)) (lotsQuery cfg (inventory_table w)) = [])"
    and lim: "limits r =
               (if take (js_plus q (Math_floor_times_0_2 q)) (lotsQuery cfg (inventory_table w)) = []
                then None
                else Some \<lparr>requested = q, max_allowed = js_plus q (Math_floor_times_0_2 q),
                           auto_selected_count =
                             length (take (js_plus q (Math_floor_times_0_2 q))
                                       (lotsQuery cfg (inventory_table w)))\<rparr>)"
    by blast
  have ceil: "length (auto_selected r) \<le> js_plus q (Math_floor_times_0_2 q)"
    unfolding sel by simp
  have oos': "out_of_stock r = (lotsQuery cfg (inventory_table w) = [] \<or> js_plus q (Math_floor_times_0_2 q) = 0)"
    unfolding oos by (rule take_Nil_iff)
  have lim': "limits r =
           (if lotsQuery cfg (inventory_table w) = [] \<or> js_plus q (Math_floor_times_0_2 q) = 0
            then None
            else Some \<lparr>requested = q, max_allowed = js_plus q (Math_floor_times_0_2 q),
                       auto_selected_count = length (auto_selected r)\<rparr>)"
    unfolding lim sel take_Nil_iff ..
  have pos: "1 \<le> q \<longrightarrow> 1 \<le> js_plus q (Math_floor_times_0_2 q)"
    by (rule impI) (rule maxLimit_pos)
  have exact: "q < 2 ^ 52 \<longrightarrow>
            int (Math_floor_times_0_2 q) = \<lfloor>rat_of_nat q * (2 / 10)\<rfloor>
          \<and> js_plus q (Math_floor_times_0_2 q) = q + Math_floor_times_0_2 q
          \<and> length (auto_selected r) \<le> q + q div 5"
  proof
    assume q: "q < 2 ^ 52"
    show "int (Math_floor_times_0_2 q) = \<lfloor>rat_of_nat q * (2 / 10)\<rfloor>
          \<and> js_plus q (Math_floor_times_0_2 q) = q + Math_floor_times_0_2 q
          \<and> length (auto_selected r) \<le> q + q div 5"
      using selection_limits_exact [OF q] Math_floor_times_0_2_exact [OF q] floor_fifth [of q] ceil
      by simp
  qed
  have hundred: "Math_floor_times_0_2 100 = 20" "js_plus 100 (Math_floor_times_0_2 100) = 120"
    by (simp_all add: Math_floor_times_0_2_exact js_plus_def round53_exact)
  show ?thesis
    by (intro exI [of _ r] conjI ok sel ceil oos' lim' pos exact hundred)
qed

text \<open>
  An order of 100 with 130 matching lots: the answer is not out of stock, reports
  \<^verbatim>\<open>max_allowed = 120\<close> and selects 120 lots.
\<close>

theorem C7_selection_ceiling_witness:
  "fetch_config (ex_env ''2024-05-03T10:00:00.000Z'') ''cfg-1'' (ex_world 100 (ex_lots 130) [] [])
     = Some (ex_config 100)
   \<and> \<not> env_fails (ex_env ''2024-05-03T10:00:00.000Z'') LotsFetch
   \<and> (1 :: nat) \<le> 100
   \<and> (100 :: nat) < 2 ^ 52
   \<and> auto_select_lots (ex_env ''2024-05-03T10:00:00.000Z'') ''cfg-1'' 100 (ex_world 100 (ex_lots 130) [] [])
     = Inr (projr (auto_select_lots (ex_env ''2024-05-03T10:00:00.000Z'') ''cfg-1'' 100
              (ex_world 100 (ex_lots 130) [] [])))
   \<and> \<not> out_of_stock (projr (auto_select_lots (ex_env ''2024-05-03T10:00:00.000Z'') ''cfg-1'' 100
              (ex_world 100 (ex_lots 130) [] [])))
   \<and> limits (projr (auto_select_lots (ex_env ''2024-05-03T10:00:00.000Z'') ''cfg-1'' 100
              (ex_world 100 (ex_lots 130) [] [])))
       = Some \<lparr>requested = 100, max_allowed = 120, auto_selected_count = 120\<rparr>
   \<and> length (auto_selected (projr (auto_select_lots (ex_env ''2024-05-03T10:00:00.000Z'') ''cfg-1'' 100
              (ex_world 100 (ex_lots 130) [] [])))) = 120
   \<and> int (Math_floor_times_0_2 100) = \<lfloor>rat_of_nat 100 * (2 / 10)\<rfloor>
   \<and> Math_floor_times_0_2 100 = 20
   \<and> js_plus 100 (Math_floor_times_0_2 100) = 120"
proof -
  let ?e = "ex_env ''2024-05-03T10:00:00.000Z''"
  let ?w = "ex_world 100 (ex_lots 130) [] []"
  let ?L = "lotsQuery (ex_config 100) (inventory_table ?w)"
  have cfg: "fetch_config ?e ''cfg-1'' ?w = Some (ex_config 100)" and store: "\<not> env_fails ?e LotsFetch"
    by (rule ex_select_setup)+
  have h1: "(1 :: nat) \<le> 100" and h2: "(100 :: nat) < 2 ^ 52" by simp_all
  have len: "length ?L = 130"
    unfolding ex_select_setup(3) by (rule ex_lots_query)
  then have ne: "?L \<noteq> []" by auto
  from C7_selection_ceiling [OF cfg store, of 100] obtain r where
    ok: "auto_select_lots ?e ''cfg-1'' 100 ?w = Inr r"
    and sel: "auto_selected r = take (js_plus 100 (Math_floor_times_0_2 100)) ?L"
    and oos: "out_of_stock r = (?L = [] \<or> js_plus 100 (Math_floor_times_0_2 100) = 0)"
    and lim: "limits r =
           (if ?L = [] \<or> js_plus 100 (Math_floor_times_0_2 100) = 0
            then None
            else Some \<lparr>requested = 100, max_allowed = js_plus 100 (Math_floor_times_0_2 100),
                       auto_selected_count = length (auto_selected r)\<rparr>)"
    and exact: "(100 :: nat) < 2 ^ 52 \<longrightarrow>
            int (Math_floor_times_0_2 100) = \<lfloor>rat_of_nat 100 * (2 / 10)\<rfloor>
          \<and> js_plus 100 (Math_floor_times_0_2 100) = 100 + Math_floor_times_0_2 100
          \<and> length (auto_selected r) \<le> 100 + 100 div 5"
    and twenty: "Math_floor_times_0_2 100 = 20"
    and max: "js_plus 100 (Math_floor_times_0_2 100) = 120"
    by (elim exE conjE) (rule that)
  have count: "length (auto_selected r) = 120"
    unfolding sel max by (simp add: len)
  have a: "auto_select_lots ?e ''cfg-1'' 100 ?w = Inr (projr (auto_select_lots ?e ''cfg-1'' 100 ?w))"
    by (rule Inr_projr [OF ok])
  have b: "\<not> out_of_stock (projr (auto_select_lots ?e ''cfg-1'' 100 ?w))"
    unfolding ok using oos ne max by simp
  have c: "limits (projr (auto_select_lots ?e ''cfg-1'' 100 ?w))
             = Some \<lparr>requested = 100, max_allowed = 120, auto_selected_count = 120\<rparr>"
    unfolding ok using lim ne max count by simp
  have d: "length (auto_selected (projr (auto_select_lots ?e ''cfg-1'' 100 ?w))) = 120"
    unfolding ok using count by simp
  show ?thesis
    by (intro conjI cfg store h1 h2 a b c d exact [THEN mp, OF h2, THEN conjunct1] twenty max)
qed

text \<open>
  Against claim C7 as stated: a requested quantity of 9007199254740989, an integer from 1 on
  that a double holds exactly, with one matching lot. The double product with
  \<^verbatim>\<open>0.2\<close> rounds up to 1801439850948198, one above the floor of \<open>q \<times> 0.2\<close>,
  the double sum rounds up again, and the answer reports
  \<^verbatim>\<open>max_allowed = 10808639105689188\<close>, two above \<open>q + \<lfloor>q \<times> 0.2\<rfloor>\<close>.
\<close>

theorem C7_counterexample:
  "(1 :: nat) \<le> 9007199254740989
   \<and> \<not> isl (auto_select_lots (ex_env ''2024-05-03T10:00:00.000Z'') ''cfg-1'' 9007199254740989
              (ex_world 9007199254740989 (ex_lots 1) [] []))
   \<and> limits (projr (auto_select_lots (ex_env ''2024-05-03T10:00:00.000Z'') ''cfg-1'' 9007199254740989
              (ex_world 9007199254740989 (ex_lots 1) [] [])))
       = Some \<lparr>requested = 9007199254740989, max_allowed = 10808639105689188, auto_selected_count = 1\<rparr>
   \<and> Math_floor_times_0_2 9007199254740989 = 1801439850948198
   \<and> \<lfloor>rat_of_nat 9007199254740989 * (2 / 10)\<rfloor> = 1801439850948197
   \<and> 9007199254740989 + nat \<lfloor>rat_of_nat 9007199254740989 * (2 / 10)\<rfloor> = 10808639105689186"
proof -
  let ?e = "ex_env ''2024-05-03T10:00:00.000Z''"
  let ?q = "9007199254740989 :: nat"
  let ?w = "ex_world ?q (ex_lots 1) [] []"
  let ?L = "lotsQuery (ex_config ?q) (inventory_table ?w)"
  have cfg: "fetch_config ?e ''cfg-1'' ?w = Some (ex_config ?q)" and store: "\<not> env_fails ?e LotsFetch"
    by (rule ex_select_setup)+
  have extra: "Math_floor_times_0_2 ?q = 1801439850948198"
    by (rule double_product_rounds_up(1))
  have max: "js_plus ?q (Math_floor_times_0_2 ?q) = 10808639105689188"
    unfolding extra by (rule double_sum_rounds_up)
  have len: "length ?L = 1"
    unfolding ex_select_setup(3) by (rule ex_lots_query)
  then have tk: "take 10808639105689188 ?L = ?L"
    by simp
  from len have ne: "?L \<noteq> []" by auto
  from auto_select_lots_limits [OF cfg store, of ?q] obtain r where
    ok: "auto_select_lots ?e ''cfg-1'' ?q ?w = Inr r"
    and lim: "limits r =
               (if take (js_plus ?q (Math_floor_times_0_2 ?q)) ?L = []
                then None
                else Some \<lparr>requested = ?q, max_allowed = js_plus ?q (Math_floor_times_0_2 ?q),
                           auto_selected_count = length (take (js_plus ?q (Math_floor_times_0_2 ?q)) ?L)\<rparr>)"
    by blast
  have lim': "limits r = Some \<lparr>requested = ?q, max_allowed = 10808639105689188, auto_selected_count = 1\<rparr>"
    using lim ne unfolding max tk len by (simp only: if_False)
  have a: "\<not> isl (auto_select_lots ?e ''cfg-1'' ?q ?w)"
    unfolding ok by simp
  have b: "limits (projr (auto_select_lots ?e ''cfg-1'' ?q ?w))
             = Some \<lparr>requested = ?q, max_allowed = 10808639105689188, auto_selected_count = 1\<rparr>"
    unfolding ok sum.sel by (rule lim')
  have fl: "\<lfloor>rat_of_nat ?q * (2 / 10)\<rfloor> = 1801439850948197"
    unfolding floor_fifth by simp
  have sum: "?q + nat \<lfloor>rat_of_nat ?q * (2 / 10)\<rfloor> = 10808639105689186"
    unfolding fl by simp
  show ?thesis
    by (intro conjI a b extra fl sum) simp
qed

text \<open>
  Claim C1, as the handler has it. With the order found and the lots read, the answer
  selects the oldest \<open>min maxLimit m\<close> of the \<open>m\<close> AVAILABLE lots that match the
  order, all of them AVAILABLE, and \<^verbatim>\<open>out_of_stock\<close> is true exactly when nothing is
  selected: for a requested quantity from 1 on, exactly when no lot matches. For quantities
  below \<open>2^52\<close>, where \<open>maxLimit\<close> is exact, the selection holds at least the
  requested quantity exactly when \<open>m\<close> does; when \<open>m\<close> is at least 1 and below the
  requested quantity, the answer is not out of stock and selects all \<open>m\<close> lots, fewer
  than requested.
\<close>

theorem C1_selection_not_floored:
  assumes cfg: "fetch_config e cid w = Some cfg"
      and store: "\<not> env_fails e LotsFetch"
  shows "\<exists>r. auto_select_lots e cid q w = Inr r
       \<and> auto_selected r = take (js_plus q (Math_floor_times_0_2 q)) (lotsQuery cfg (inventory_table w))
       \<and> length (auto_selected r) =
           min (js_plus q (Math_floor_times_0_2 q)) (length (lotsQuery cfg (inventory_table w)))
       \<and> out_of_stock r = (auto_selected r = [])
       \<and> (1 \<le> q \<longrightarrow> out_of_stock r = (lotsQuery cfg (inventory_table w) = []))
       \<and> (\<forall>l \<in> set (auto_selected r). l \<in> set (inventory_table w) \<and> inv_status l = AVAILABLE)
       \<and> (q < 2 ^ 52 \<longrightarrow>
            (q \<le> length (auto_selected r)) = (q \<le> length (lotsQuery cfg (inventory_table w))))
       \<and> (q < 2 ^ 52 \<longrightarrow> lotsQuery cfg (inventory_table w) \<noteq> [] \<longrightarrow>
            length (lotsQuery cfg (inventory_table w)) < q \<longrightarrow>
              \<not> out_of_stock r
            \<and> auto_selected r = lotsQuery cfg (inventory_table w)
            \<and> length (auto_selected r) < q)"
proof -
  from auto_select_lots_limits [OF cfg store, of q] obtain r where
    ok: "auto_select_lots e cid q w = Inr r"
    and sel: "auto_selected r = take (js_plus q (Math_floor_times_0_2 q)) (lotsQuery cfg (inventory_table w))"
    and oos: "out_of_stock r = (take (js_plus q (Math_floor_times_0_2 q)) (lotsQuery cfg (inventory_table w)) = [])"
    by blast
  have len: "length (auto_selected r) =
           min (js_plus q (Math_floor_times_0_2 q)) (length (lotsQuery cfg (inventory_table w)))"
    unfolding sel by (simp add: min.commute)
  have empty: "out_of_stock r = (auto_selected r = [])"
    unfolding oos sel ..
  have none: "1 \<le> q \<longrightarrow> out_of_stock r = (lotsQuery cfg (inventory_table w) = [])"
  proof
    assume "1 \<le> q"
    then have "1 \<le> js_plus q (Math_floor_times_0_2 q)" by (rule maxLimit_pos)
    then show "out_of_stock r = (lotsQuery cfg (inventory_table w) = [])"
      unfolding oos take_Nil_iff by simp
  qed
  have avail: "\<forall>l \<in> set (auto_selected r). l \<in> set (inventory_table w) \<and> inv_status l = AVAILABLE"
    unfolding sel using lotsQuery_available [of cfg "inventory_table w"]
    by (meson in_set_takeD)
  have floor: "q < 2 ^ 52 \<longrightarrow>
            (q \<le> length (auto_selected r)) = (q \<le> length (lotsQuery cfg (inventory_table w)))"
  proof
    assume q: "q < 2 ^ 52"
    show "(q \<le> length (auto_selected r)) = (q \<le> length (lotsQuery cfg (inventory_table w)))"
      unfolding len selection_limits_exact [OF q] by simp
  qed
  have short: "q < 2 ^ 52 \<longrightarrow> lotsQuery cfg (inventory_table w) \<noteq> [] \<longrightarrow>
            length (lotsQuery cfg (inventory_table w)) < q \<longrightarrow>
              \<not> out_of_stock r
            \<and> auto_selected r = lotsQuery cfg (inventory_table w)
            \<and> length (auto_selected r) < q"
  proof (intro impI)
    assume q: "q < 2 ^ 52"
      and ne: "lotsQuery cfg (inventory_table w) \<noteq> []"
      and lt: "length (lotsQuery cfg (inventory_table w)) < q"
    have all: "take (js_plus q (Math_floor_times_0_2 q)) (lotsQuery cfg (inventory_table w))
                 = lotsQuery cfg (inventory_table w)"
      unfolding selection_limits_exact [OF q] using lt by simp
    show "\<not> out_of_stock r
            \<and> auto_selected r = lotsQuery cfg (inventory_table w)
            \<and> length (auto_selected r) < q"
      unfolding oos sel all using ne lt by simp
  qed
  show ?thesis
    by (intro exI [of _ r] conjI ok sel len empty none avail floor short)
qed

text \<open>
  An order of 5 with 3 matching lots: the answer is not out of stock and selects the 3 lots.
\<close>

theorem C1_selection_not_floored_witness:
  "fetch_config (ex_env ''2024-05-03T10:00:00.000Z'') ''cfg-1'' (ex_world 5 (ex_lots 3) [] [])
       = Some (ex_config 5)
   \<and> \<not> env_fails (ex_env ''2024-05-03T10:00:00.000Z'') LotsFetch
   \<and> (1 :: nat) \<le> 5
   \<and> (5 :: nat) < 2 ^ 52
   \<and> lotsQuery (ex_config 5) (inventory_table (ex_world 5 (ex_lots 3) [] [])) \<noteq> []
   \<and> length (lotsQuery (ex_config 5) (inventory_table (ex_world 5 (ex_lots 3) [] []))) < 5
   \<and> auto_select_lots (ex_env ''2024-05-03T10:00:00.000Z'') ''cfg-1'' 5 (ex_world 5 (ex_lots 3) [] [])
     = Inr (projr (auto_select_lots (ex_env ''2024-05-03T10:00:00.000Z'') ''cfg-1'' 5
              (ex_world 5 (ex_lots 3) [] [])))
   \<and> \<not> out_of_stock (projr (auto_select_lots (ex_env ''2024-05-03T10:00:00.000Z'') ''cfg-1'' 5
              (ex_world 5 (ex_lots 3) [] [])))
   \<and> auto_selected (projr (auto_select_lots (ex_env ''2024-05-03T10:00:00.000Z'') ''cfg-1'' 5
              (ex_world 5 (ex_lots 3) [] [])))
       = lotsQuery (ex_config 5) (inventory_table (ex_world 5 (ex_lots 3) [] []))
   \<and> length (auto_selected (projr (auto_select_lots (ex_env ''2024-05-03T10:00:00.000Z'') ''cfg-1'' 5
              (ex_world 5 (ex_lots 3) [] [])))) = 3
   \<and> (5 \<le> length (auto_selected (projr (auto_select_lots (ex_env ''2024-05-03T10:00:00.000Z'') ''cfg-1'' 5
              (ex_world 5 (ex_lots 3) [] [])))))
       = (5 \<le> length (lotsQuery (ex_config 5) (inventory_table (ex_world 5 (ex_lots 3) [] []))))"
proof -
  let ?e = "ex_env ''2024-05-03T10:00:00.000Z''"
  let ?w = "ex_world 5 (ex_lots 3) [] []"
  let ?L = "lotsQuery (ex_config 5) (inventory_table ?w)"
  have cfg: "fetch_config ?e ''cfg-1'' ?w = Some (ex_config 5)" and store: "\<not> env_fails ?e LotsFetch"
    by (rule ex_select_setup)+
  have h1: "(1 :: nat) \<le> 5" and h2: "(5 :: nat) < 2 ^ 52" by simp_all
  have len: "length ?L = 3"
    unfolding ex_select_setup(3) by (rule ex_lots_query)
  then have ne: "?L \<noteq> []" by auto
  from len have lt: "length ?L < 5" by simp
  from C1_selection_not_floored [OF cfg store, of 5] obtain r where
    ok: "auto_select_lots ?e ''cfg-1'' 5 ?w = Inr r"
    and floor: "(5 :: nat) < 2 ^ 52 \<longrightarrow> (5 \<le> length (auto_selected r)) = (5 \<le> length ?L)"
    and short: "(5 :: nat) < 2 ^ 52 \<longrightarrow> ?L \<noteq> [] \<longrightarrow> length ?L < 5 \<longrightarrow>
              \<not> out_of_stock r \<and> auto_selected r = ?L \<and> length (auto_selected r) < 5"
    by blast
  note s = short [THEN mp, OF h2, THEN mp, OF ne, THEN mp, OF lt]
  have a: "auto_select_lots ?e ''cfg-1'' 5 ?w = Inr (projr (auto_select_lots ?e ''cfg-1'' 5 ?w))"
    by (rule Inr_projr [OF ok])
  have b: "\<not> out_of_stock (projr (auto_select_lots ?e ''cfg-1'' 5 ?w))"
    unfolding ok sum.sel by (rule s [THEN conjunct1])
  have c: "auto_selected (projr (auto_select_lots ?e ''cfg-1'' 5 ?w)) = ?L"
    unfolding ok sum.sel by (rule s [THEN conjunct2, THEN conjunct1])
  have d: "length (auto_selected (projr (auto_select_lots ?e ''cfg-1'' 5 ?w))) = 3"
    unfolding c by (rule len)
  have f: "(5 \<le> length (auto_selected (projr (auto_select_lots ?e ''cfg-1'' 5 ?w)))) = (5 \<le> length ?L)"
    unfolding ok sum.sel by (rule floor [THEN mp, OF h2])
  show ?thesis
    by (intro conjI cfg store h1 h2 ne lt a b c d f)
qed

text \<open>
  Against claim C1 as stated: 45 matching AVAILABLE lots for a requested quantity of 50.
  The answer is not an error, reports \<^verbatim>\<open>out_of_stock = false\<close> and selects 45 lots.
\<close>

theorem C1_counterexample:
  "\<not> isl (auto_select_lots (ex_env ''2024-05-03T10:00:00.000Z'') ''cfg-1'' 50 (ex_world 50 (ex_lots 45) [] []))
   \<and> \<not> out_of_stock (projr (auto_select_lots (ex_env ''2024-05-03T10:00:00.000Z'') ''cfg-1'' 50
          (ex_world 50 (ex_lots 45) [] [])))
   \<and> length (auto_selected (projr (auto_select_lots (ex_env ''2024-05-03T10:00:00.000Z'') ''cfg-1'' 50
          (ex_world 50 (ex_lots 45) [] [])))) = 45
   \<and> (45 :: nat) < 50"
proof -
  let ?e = "ex_env ''2024-05-03T10:00:00.000Z''"
  let ?w = "ex_world 50 (ex_lots 45) [] []"
  have cfg: "fetch_config ?e ''cfg-1'' ?w = Some (ex_config 50)" and store: "\<not> env_fails ?e LotsFetch"
    by (rule ex_select_setup)+
  have lim: "js_plus 50 (Math_floor_times_0_2 50) = 60"
    by (simp add: selection_limits_exact)
  from auto_select_lots_found [OF cfg store, of 50] obtain r where
    r: "auto_select_lots ?e ''cfg-1'' 50 ?w = Inr r"
       "auto_selected r = take (js_plus 50 (Math_floor_times_0_2 50)) (lotsQuery (ex_config 50) (inventory_table ?w))"
       "out_of_stock r = (take (js_plus 50 (Math_floor_times_0_2 50)) (lotsQuery (ex_config 50) (inventory_table ?w)) = [])"
    by blast
  have len: "length (auto_selected r) = 45"
    unfolding r(2) lim ex_select_setup(3) by (simp add: ex_lots_query)
  have stock: "\<not> out_of_stock r"
    using len unfolding r(3) r(2) [symmetric] by auto
  have a: "\<not> isl (auto_select_lots ?e ''cfg-1'' 50 ?w)"
    unfolding r(1) by simp
  have b: "\<not> out_of_stock (projr (auto_select_lots ?e ''cfg-1'' 50 ?w))"
    unfolding r(1) using stock by simp
  have c: "length (auto_selected (projr (auto_select_lots ?e ''cfg-1'' 50 ?w))) = 45"
    unfolding r(1) using len by simp
  show ?thesis
    by (intro conjI a b c) simp
qed

subsection \<open>Draft commit\<close>

lemma save_draft_success:
  assumes cfg: "fetch_config e cid w = Some cfg"
      and broker: "find (\<lambda>b. broker_id b = cfg_broker_id cfg) (broker_info w) = Some broker"
      and store: "draft_store_ok e"
  shows "fst (save_draft e u cid sel w) =
           Inr \<lparr>sales_record = salesRecord_of e u cid sel broker w,
                blocked_lots = length (filter (\<lambda>l. inv_id l \<in> set sel) (inventory_table w)),
                draft_total_value = sale_total_value (salesRecord_of e u cid sel broker w),
                draft_broker_commission = sale_broker_commission (salesRecord_of e u cid sel broker w)\<rparr>"
    and "sales_table (snd (save_draft e u cid sel w)) = sales_table w @ [salesRecord_of e u cid sel broker w]"
    and "lot_selected_contract (snd (save_draft e u cid sel w)) =
           lot_selected_contract w @
             lotSelections (env_new_id e) (filter (\<lambda>l. inv_id l \<in> set sel) (inventory_table w))"
    and "inventory_table (snd (save_draft e u cid sel w)) = block_lots (env_now e) sel (inventory_table w)"
    and "sales_configuration (snd (save_draft e u cid sel w)) =
           mark_processing (env_now e) cid (sales_configuration w)"
    and "customer_assignment_table (snd (save_draft e u cid sel w)) = customer_assignment_table w"
  using assms
  by (simp_all add: save_draft_def salesRecord_of_def draft_store_ok_def Let_def)

lemma save_draft_succeeds_iff:
  "(\<not> isl (fst (save_draft e u cid sel w))) =
     (\<exists>cfg broker. fetch_config e cid w = Some cfg
        \<and> find (\<lambda>b. broker_id b = cfg_broker_id cfg) (broker_info w) = Some broker \<and> draft_store_ok e)"
  by (auto simp: save_draft_def draft_store_ok_def Let_def split: option.splits)

lemma save_draft_failure_inventory:
  "isl (fst (save_draft e u cid sel w)) \<Longrightarrow>
     inventory_table (snd (save_draft e u cid sel w)) = inventory_table w"
  by (auto simp: save_draft_def Let_def split: option.splits if_splits)

lemma block_lots_simps:
  "block_lots now ids [] = []"
  "block_lots now ids (l # rows) =
     (if inv_id l \<in> set ids then l\<lparr>inv_status := BLOCKED, inv_updated_at := now\<rparr> else l)
       # block_lots now ids rows"
  by (simp_all add: block_lots_def)

lemma block_lots_selected:
  "\<forall>l \<in> set (block_lots now ids rows). inv_id l \<in> set ids \<longrightarrow> inv_status l = BLOCKED"
  by (induction rows) (simp_all add: block_lots_simps)

lemma block_lots_length: "length (block_lots now ids rows) = length rows"
  by (simp add: block_lots_def)

lemma block_lots_others:
  "\<forall>i < length rows. inv_id (rows ! i) \<notin> set ids \<longrightarrow> block_lots now ids rows ! i = rows ! i"
  by (simp add: block_lots_def)

lemma manual_lot_selection_rejects_iff:
  assumes cfg: "fetch_config e cid w = Some cfg"
      and store: "\<not> env_fails e LotsFetch"
  shows "isl (manual_lot_selection e cid sel w) =
           (length (filter (\<lambda>l. inv_id l \<in> set sel \<and> inv_status l = AVAILABLE) (inventory_table w))
              < cfg_requested_quantity cfg)"
    and "isl (manual_lot_selection e cid sel w) \<longrightarrow>
           manual_lot_selection e cid sel w =
             Inl (Err 400 (''Please select at least '' @ show_nat (cfg_requested_quantity cfg)
                    @ '' lots. Currently selected: ''
                    @ show_nat (length (filter (\<lambda>l. inv_id l \<in> set sel \<and> inv_status l = AVAILABLE)
                                   (inventory_table w)))))"
  using assms by (simp_all add: manual_lot_selection_def Let_def)






lemma ex_draft_setup:
  "fetch_config (ex_env now) ''cfg-1'' (ex_world n lots sales asgs) = Some (ex_config n)"
  "find (\<lambda>b. broker_id b = cfg_broker_id (ex_config n)) (broker_info (ex_world n lots sales asgs)) = Some ex_broker"
  "draft_store_ok (ex_env now)"
  by (simp_all add: fetch_config_def single_def draft_store_ok_def ex_defs)

text \<open>
  Claim C2, as the handler has it. \<^verbatim>\<open>save-draft\<close> reads the requested lots without a status
  filter and never compares a status: whether it succeeds depends only on the order and
  broker lookups and on the store calls. A call that succeeds has set every lot of
  \<^verbatim>\<open>inventory_table\<close> whose id is requested to BLOCKED, whatever its state before, with one
  update, and left every other lot as it was; a call that fails has changed no lot. No
  outcome names a contended lot.
\<close>

theorem C2_claim_without_check:
  "(\<not> isl (fst (save_draft e u cid sel w))) =
     (\<exists>cfg broker. fetch_config e cid w = Some cfg
        \<and> find (\<lambda>b. broker_id b = cfg_broker_id cfg) (broker_info w) = Some broker \<and> draft_store_ok e)
   \<and> (isl (fst (save_draft e u cid sel w)) \<longrightarrow>
        inventory_table (snd (save_draft e u cid sel w)) = inventory_table w)
   \<and> (\<not> isl (fst (save_draft e u cid sel w)) \<longrightarrow>
        inventory_table (snd (save_draft e u cid sel w)) = block_lots (env_now e) sel (inventory_table w))
   \<and> (\<forall>l \<in> set (block_lots (env_now e) sel (inventory_table w)).
        inv_id l \<in> set sel \<longrightarrow> inv_status l = BLOCKED)
   \<and> length (block_lots (env_now e) sel (inventory_table w)) = length (inventory_table w)
   \<and> (\<forall>i < length (inventory_table w). inv_id (inventory_table w ! i) \<notin> set sel \<longrightarrow>
        block_lots (env_now e) sel (inventory_table w) ! i = inventory_table w ! i)"
proof -
  have ok: "inventory_table (snd (save_draft e u cid sel w)) = block_lots (env_now e) sel (inventory_table w)"
    if "\<not> isl (fst (save_draft e u cid sel w))"
  proof -
    from that obtain cfg broker where
      "fetch_config e cid w = Some cfg"
      "find (\<lambda>b. broker_id b = cfg_broker_id cfg) (broker_info w) = Some broker" "draft_store_ok e"
      unfolding save_draft_succeeds_iff by blast
    then show ?thesis by (rule save_draft_success(4))
  qed
  show ?thesis
    using save_draft_succeeds_iff [of e u cid sel w] save_draft_failure_inventory [of e u cid sel w] ok
      block_lots_selected [of "env_now e" sel "inventory_table w"]
      block_lots_length [of "env_now e" sel "inventory_table w"]
      block_lots_others [of "inventory_table w" sel "env_now e"]
    by (intro conjI impI) assumption+
qed

text \<open>
  A request for an AVAILABLE lot and a lot another order holds as BLOCKED succeeds and
  blocks both.
\<close>

theorem C2_claim_without_check_witness:
  "\<not> isl (fst (save_draft (ex_env ''2024-05-03T10:00:00.000Z'') ex_admin ''cfg-1'' [''lot-1'', ''lot-2'']
        (ex_world 2 [ex_lot ''lot-1'' AVAILABLE 1, ex_lot ''lot-2'' BLOCKED 2] [] [])))
   \<and> inventory_table (snd (save_draft (ex_env ''2024-05-03T10:00:00.000Z'') ex_admin ''cfg-1'' [''lot-1'', ''lot-2'']
        (ex_world 2 [ex_lot ''lot-1'' AVAILABLE 1, ex_lot ''lot-2'' BLOCKED 2] [] [])))
     = block_lots (env_now (ex_env ''2024-05-03T10:00:00.000Z'')) [''lot-1'', ''lot-2'']
         (inventory_table (ex_world 2 [ex_lot ''lot-1'' AVAILABLE 1, ex_lot ''lot-2'' BLOCKED 2] [] []))
   \<and> length (block_lots (env_now (ex_env ''2024-05-03T10:00:00.000Z'')) [''lot-1'', ''lot-2'']
         (inventory_table (ex_world 2 [ex_lot ''lot-1'' AVAILABLE 1, ex_lot ''lot-2'' BLOCKED 2] [] [])))
     = length (inventory_table (ex_world 2 [ex_lot ''lot-1'' AVAILABLE 1, ex_lot ''lot-2'' BLOCKED 2] [] []))"
proof -
  let ?e = "ex_env ''2024-05-03T10:00:00.000Z''"
  let ?w = "ex_world 2 [ex_lot ''lot-1'' AVAILABLE 1, ex_lot ''lot-2'' BLOCKED 2] [] []"
  note c = C2_claim_without_check [of ?e ex_admin "''cfg-1''" "[''lot-1'', ''lot-2'']" ?w]
  have ok: "\<not> isl (fst (save_draft ?e ex_admin ''cfg-1'' [''lot-1'', ''lot-2''] ?w))"
    unfolding c [THEN conjunct1] using ex_draft_setup by blast
  show ?thesis
    by (intro conjI ok c [THEN conjunct2, THEN conjunct2, THEN conjunct1, THEN mp, OF ok]
          c [THEN conjunct2, THEN conjunct2, THEN conjunct2, THEN conjunct2, THEN conjunct1])
qed

text \<open>
  Against claim C2 as stated: lot-2 is not AVAILABLE, yet the call succeeds and lot-1 goes
  from AVAILABLE to BLOCKED.
\<close>

theorem C2_counterexample:
  "inv_status (ex_lot ''lot-2'' BLOCKED 2) \<noteq> AVAILABLE
   \<and> map inv_status (inventory_table (ex_world 2 [ex_lot ''lot-1'' AVAILABLE 1, ex_lot ''lot-2'' BLOCKED 2] [] []))
       = [AVAILABLE, BLOCKED]
   \<and> \<not> isl (fst (save_draft (ex_env ''2024-05-03T10:00:00.000Z'') ex_admin ''cfg-1'' [''lot-1'', ''lot-2'']
        (ex_world 2 [ex_lot ''lot-1'' AVAILABLE 1, ex_lot ''lot-2'' BLOCKED 2] [] [])))
   \<and> map inv_status (inventory_table (snd (save_draft (ex_env ''2024-05-03T10:00:00.000Z'') ex_admin ''cfg-1''
        [''lot-1'', ''lot-2''] (ex_world 2 [ex_lot ''lot-1'' AVAILABLE 1, ex_lot ''lot-2'' BLOCKED 2] [] []))))
       = [BLOCKED, BLOCKED]"
proof -
  let ?e = "ex_env ''2024-05-03T10:00:00.000Z''"
  let ?w = "ex_world 2 [ex_lot ''lot-1'' AVAILABLE 1, ex_lot ''lot-2'' BLOCKED 2] [] []"
  have s1: "fetch_config (ex_env ''2024-05-03T10:00:00.000Z'') ''cfg-1'' (ex_world 2 [ex_lot ''lot-1'' AVAILABLE 1, ex_lot ''lot-2'' BLOCKED 2] [] []) = Some (ex_config 2)"
    by (rule ex_draft_setup)
  have s2: "find (\<lambda>b. broker_id b = cfg_broker_id (ex_config 2)) (broker_info (ex_world 2 [ex_lot ''lot-1'' AVAILABLE 1, ex_lot ''lot-2'' BLOCKED 2] [] [])) = Some ex_broker"
    by (rule ex_draft_setup)
  have s3: "draft_store_ok (ex_env ''2024-05-03T10:00:00.000Z'')"
    by (rule ex_draft_setup)
  note sd = save_draft_success [OF s1 s2 s3, of ex_admin "[''lot-1'', ''lot-2'']"]
  have a: "inv_status (ex_lot ''lot-2'' BLOCKED 2) \<noteq> AVAILABLE"
    by (simp add: ex_lot_def)
  have b: "map inv_status (inventory_table ?w) = [AVAILABLE, BLOCKED]"
    by (simp add: ex_world_def ex_lot_def)
  have c: "\<not> isl (fst (save_draft ?e ex_admin ''cfg-1'' [''lot-1'', ''lot-2''] ?w))"
    unfolding sd(1) by simp
  have d: "map inv_status (inventory_table (snd (save_draft ?e ex_admin ''cfg-1'' [''lot-1'', ''lot-2''] ?w)))
       = [BLOCKED, BLOCKED]"
    unfolding sd(4) by (simp add: block_lots_def ex_world_def ex_lot_def)
  show ?thesis
    by (intro conjI a b c d)
qed

text \<open>
  Claim C8, as the handlers have it. \<^verbatim>\<open>save-draft\<close> does not compare the selection with
  \<^verbatim>\<open>requested_quantity\<close>: for any list of lot ids, once the order and its broker are read
  and the store calls go through, it inserts a DRAFT sales record and blocks the requested
  lots. The floor is enforced by \<^verbatim>\<open>manual-lot-selection\<close> alone, which answers 400 exactly
  when fewer than \<^verbatim>\<open>requested_quantity\<close> of the selected lots are AVAILABLE.
\<close>

theorem C8_floor_not_at_commit:
  assumes cfg: "fetch_config e cid w = Some cfg"
      and broker: "find (\<lambda>b. broker_id b = cfg_broker_id cfg) (broker_info w) = Some broker"
      and store: "draft_store_ok e"
  shows "(\<exists>d. fst (save_draft e u cid sel w) = Inr d \<and> sale_status (sales_record d) = DRAFT
            \<and> sales_table (snd (save_draft e u cid sel w)) = sales_table w @ [sales_record d])
       \<and> inventory_table (snd (save_draft e u cid sel w)) = block_lots (env_now e) sel (inventory_table w)
       \<and> isl (manual_lot_selection e cid sel w) =
           (length (filter (\<lambda>l. inv_id l \<in> set sel \<and> inv_status l = AVAILABLE) (inventory_table w))
              < cfg_requested_quantity cfg)
       \<and> (isl (manual_lot_selection e cid sel w) \<longrightarrow>
           manual_lot_selection e cid sel w =
             Inl (Err 400 (''Please select at least '' @ show_nat (cfg_requested_quantity cfg)
                    @ '' lots. Currently selected: ''
                    @ show_nat (length (filter (\<lambda>l. inv_id l \<in> set sel \<and> inv_status l = AVAILABLE)
                                   (inventory_table w))))))"
proof -
  note sd = save_draft_success [OF cfg broker store, of u sel]
  have lots: "\<not> env_fails e LotsFetch"
    using store by (simp add: draft_store_ok_def)
  have draft: "\<exists>d. fst (save_draft e u cid sel w) = Inr d \<and> sale_status (sales_record d) = DRAFT
            \<and> sales_table (snd (save_draft e u cid sel w)) = sales_table w @ [sales_record d]"
    unfolding sd(1) sd(2) by (simp add: salesRecord_of_def Let_def)
  show ?thesis
    by (intro conjI draft sd(4) manual_lot_selection_rejects_iff [OF cfg lots])
qed

text \<open>
  One lot for an order of two: the draft is saved, and the validation route would have
  refused the selection.
\<close>

theorem C8_floor_not_at_commit_witness:
  "fetch_config (ex_env ''2024-05-03T10:00:00.000Z'') ''cfg-1''
       (ex_world 2 [ex_lot ''lot-1'' AVAILABLE 1] [] []) = Some (ex_config 2)
   \<and> find (\<lambda>b. broker_id b = cfg_broker_id (ex_config 2))
       (broker_info (ex_world 2 [ex_lot ''lot-1'' AVAILABLE 1] [] [])) = Some ex_broker
   \<and> draft_store_ok (ex_env ''2024-05-03T10:00:00.000Z'')
   \<and> (\<exists>d. fst (save_draft (ex_env ''2024-05-03T10:00:00.000Z'') ex_admin ''cfg-1'' [''lot-1'']
              (ex_world 2 [ex_lot ''lot-1'' AVAILABLE 1] [] [])) = Inr d
          \<and> sale_status (sales_record d) = DRAFT
          \<and> sales_table (snd (save_draft (ex_env ''2024-05-03T10:00:00.000Z'') ex_admin ''cfg-1'' [''lot-1'']
              (ex_world 2 [ex_lot ''lot-1'' AVAILABLE 1] [] [])))
            = sales_table (ex_world 2 [ex_lot ''lot-1'' AVAILABLE 1] [] []) @ [sales_record d])
   \<and> isl (manual_lot_selection (ex_env ''2024-05-03T10:00:00.000Z'') ''cfg-1'' [''lot-1'']
          (ex_world 2 [ex_lot ''lot-1'' AVAILABLE 1] [] []))
     = (length (filter (\<lambda>l. inv_id l \<in> set [''lot-1''] \<and> inv_status l = AVAILABLE)
                 (inventory_table (ex_world 2 [ex_lot ''lot-1'' AVAILABLE 1] [] [])))
         < cfg_requested_quantity (ex_config 2))"
proof -
  have s1: "fetch_config (ex_env ''2024-05-03T10:00:00.000Z'') ''cfg-1'' (ex_world 2 [ex_lot ''lot-1'' AVAILABLE 1] [] []) = Some (ex_config 2)"
    by (rule ex_draft_setup)
  have s2: "find (\<lambda>b. broker_id b = cfg_broker_id (ex_config 2)) (broker_info (ex_world 2 [ex_lot ''lot-1'' AVAILABLE 1] [] [])) = Some ex_broker"
    by (rule ex_draft_setup)
  have s3: "draft_store_ok (ex_env ''2024-05-03T10:00:00.000Z'')"
    by (rule ex_draft_setup)
  note c = C8_floor_not_at_commit [OF s1 s2 s3, of ex_admin "[''lot-1'']"]
  show ?thesis
    by (intro conjI s1 s2 s3 c [THEN conjunct1] c [THEN conjunct2, THEN conjunct2, THEN conjunct1])
qed

text \<open>
  Against claim C8 as stated: one lot id for an order of two; the call succeeds, the
  DRAFT record exists and the lot is BLOCKED.
\<close>

theorem C8_counterexample:
  "length [''lot-1''] < cfg_requested_quantity (ex_config 2)
   \<and> \<not> isl (fst (save_draft (ex_env ''2024-05-03T10:00:00.000Z'') ex_admin ''cfg-1'' [''lot-1'']
        (ex_world 2 [ex_lot ''lot-1'' AVAILABLE 1] [] [])))
   \<and> map sale_status (sales_table (snd (save_draft (ex_env ''2024-05-03T10:00:00.000Z'') ex_admin ''cfg-1''
        [''lot-1''] (ex_world 2 [ex_lot ''lot-1'' AVAILABLE 1] [] [])))) = [DRAFT]
   \<and> map inv_status (inventory_table (snd (save_draft (ex_env ''2024-05-03T10:00:00.000Z'') ex_admin ''cfg-1''
        [''lot-1''] (ex_world 2 [ex_lot ''lot-1'' AVAILABLE 1] [] [])))) = [BLOCKED]"
proof -
  let ?e = "ex_env ''2024-05-03T10:00:00.000Z''"
  let ?w = "ex_world 2 [ex_lot ''lot-1'' AVAILABLE 1] [] []"
  have s1: "fetch_config (ex_env ''2024-05-03T10:00:00.000Z'') ''cfg-1'' (ex_world 2 [ex_lot ''lot-1'' AVAILABLE 1] [] []) = Some (ex_config 2)"
    by (rule ex_draft_setup)
  have s2: "find (\<lambda>b. broker_id b = cfg_broker_id (ex_config 2)) (broker_info (ex_world 2 [ex_lot ''lot-1'' AVAILABLE 1] [] [])) = Some ex_broker"
    by (rule ex_draft_setup)
  have s3: "draft_store_ok (ex_env ''2024-05-03T10:00:00.000Z'')"
    by (rule ex_draft_setup)
  note sd = save_draft_success [OF s1 s2 s3, of ex_admin "[''lot-1'']"]
  have a: "length [''lot-1''] < cfg_requested_quantity (ex_config 2)"
    by (simp add: ex_config_def)
  have b: "\<not> isl (fst (save_draft ?e ex_admin ''cfg-1'' [''lot-1''] ?w))"
    unfolding sd(1) by simp
  have c: "map sale_status (sales_table (snd (save_draft ?e ex_admin ''cfg-1'' [''lot-1''] ?w))) = [DRAFT]"
    unfolding sd(2) by (simp add: salesRecord_of_def Let_def ex_world_def)
  have d: "map inv_status (inventory_table (snd (save_draft ?e ex_admin ''cfg-1'' [''lot-1''] ?w))) = [BLOCKED]"
    unfolding sd(4) by (simp add: block_lots_def ex_world_def ex_lot_def)
  show ?thesis
    by (intro conjI a b c d)
qed




subsection \<open>Confirmation trigger\<close>

lemma trigger_keeps_tables:
  "customer_assignment_table (checkAndTriggerConfirmation e sid u w) = customer_assignment_table w"
  "inventory_table (checkAndTriggerConfirmation e sid u w) = inventory_table w"
  "sales_table (checkAndTriggerConfirmation e sid u w) = sales_table w"
  "sales_configuration (checkAndTriggerConfirmation e sid u w) = sales_configuration w"
  "lot_selected_contract (checkAndTriggerConfirmation e sid u w) = lot_selected_contract w"
  by (simp_all add: checkAndTriggerConfirmation_def Let_def split: option.splits)

lemma trigger_posts:
  assumes "\<not> env_fails e SalesInfoFetch"
      and "single (filter (\<lambda>s. sale_id s = sid) (sales_table w)) = Some s"
      and "\<not> env_fails e AcceptedLotsFetch"
      and "find (\<lambda>c. cfg_id c = sale_config_id s) (sales_configuration w) = Some cfg"
      and "\<not> env_fails e WebhookPost"
  shows "n8n_posts (checkAndTriggerConfirmation e sid u w) =
           (if cfg_requested_quantity cfg \<le> acceptedCount_of sid w
            then n8n_posts w @ [Lot_Acceptance_Confirmation sid (acceptedCount_of sid w)
                                  (cfg_requested_quantity cfg) (user_id u)]
            else n8n_posts w)"
  using assms by (simp add: checkAndTriggerConfirmation_def acceptedCount_of_def Let_def)

lemma acceptedCount_of_trigger:
  "acceptedCount_of sid (checkAndTriggerConfirmation e sid' u w) = acceptedCount_of sid w"
  by (simp add: acceptedCount_of_def trigger_keeps_tables)

text \<open>
  Claim C3, as the trigger has it. \<^verbatim>\<open>checkAndTriggerConfirmation\<close> posts the confirmation
  whenever the number of ACCEPTED assignments of the sales order is at least the order's
  \<^verbatim>\<open>requested_quantity\<close>, provided its two reads and the post go through. It reads no
  status of the sales record and writes neither \<^verbatim>\<open>sales_table\<close> nor
  \<^verbatim>\<open>sales_configuration\<close>, so a second evaluation on its own result posts the same
  confirmation again: nothing limits an order to one confirmation event.
\<close>

theorem C3_trigger_not_once:
  "sales_table (checkAndTriggerConfirmation e sid u w) = sales_table w
   \<and> sales_configuration (checkAndTriggerConfirmation e sid u w) = sales_configuration w
   \<and> customer_assignment_table (checkAndTriggerConfirmation e sid u w) = customer_assignment_table w
   \<and> (\<not> env_fails e SalesInfoFetch \<and> single (filter (\<lambda>s. sale_id s = sid) (sales_table w)) = Some s
        \<and> \<not> env_fails e AcceptedLotsFetch
        \<and> find (\<lambda>c. cfg_id c = sale_config_id s) (sales_configuration w) = Some cfg
        \<and> \<not> env_fails e WebhookPost \<longrightarrow>
        n8n_posts (checkAndTriggerConfirmation e sid u w) =
           (if cfg_requested_quantity cfg \<le> acceptedCount_of sid w
            then n8n_posts w @ [Lot_Acceptance_Confirmation sid (acceptedCount_of sid w)
                                  (cfg_requested_quantity cfg) (user_id u)]
            else n8n_posts w)
        \<and> n8n_posts (checkAndTriggerConfirmation e sid u (checkAndTriggerConfirmation e sid u w)) =
           (if cfg_requested_quantity cfg \<le> acceptedCount_of sid w
            then n8n_posts w @ [Lot_Acceptance_Confirmation sid (acceptedCount_of sid w)
                                  (cfg_requested_quantity cfg) (user_id u),
                                Lot_Acceptance_Confirmation sid (acceptedCount_of sid w)
                                  (cfg_requested_quantity cfg) (user_id u)]
            else n8n_posts w))"
proof -
  have posts: "n8n_posts (checkAndTriggerConfirmation e sid u w) =
           (if cfg_requested_quantity cfg \<le> acceptedCount_of sid w
            then n8n_posts w @ [Lot_Acceptance_Confirmation sid (acceptedCount_of sid w)
                                  (cfg_requested_quantity cfg) (user_id u)]
            else n8n_posts w)
        \<and> n8n_posts (checkAndTriggerConfirmation e sid u (checkAndTriggerConfirmation e sid u w)) =
           (if cfg_requested_quantity cfg \<le> acceptedCount_of sid w
            then n8n_posts w @ [Lot_Acceptance_Confirmation sid (acceptedCount_of sid w)
                                  (cfg_requested_quantity cfg) (user_id u),
                                Lot_Acceptance_Confirmation sid (acceptedCount_of sid w)
                                  (cfg_requested_quantity cfg) (user_id u)]
            else n8n_posts w)"
    if h: "\<not> env_fails e SalesInfoFetch" "single (filter (\<lambda>s. sale_id s = sid) (sales_table w)) = Some s"
        "\<not> env_fails e AcceptedLotsFetch"
        "find (\<lambda>c. cfg_id c = sale_config_id s) (sales_configuration w) = Some cfg"
        "\<not> env_fails e WebhookPost"
  proof -
    let ?w1 = "checkAndTriggerConfirmation e sid u w"
    have first: "n8n_posts ?w1 =
           (if cfg_requested_quantity cfg \<le> acceptedCount_of sid w
            then n8n_posts w @ [Lot_Acceptance_Confirmation sid (acceptedCount_of sid w)
                                  (cfg_requested_quantity cfg) (user_id u)]
            else n8n_posts w)"
      by (rule trigger_posts [OF h])
    have h2: "single (filter (\<lambda>s. sale_id s = sid) (sales_table ?w1)) = Some s"
      and h4: "find (\<lambda>c. cfg_id c = sale_config_id s) (sales_configuration ?w1) = Some cfg"
      using h by (simp_all only: trigger_keeps_tables)
    have second: "n8n_posts (checkAndTriggerConfirmation e sid u ?w1) =
           (if cfg_requested_quantity cfg \<le> acceptedCount_of sid ?w1
            then n8n_posts ?w1 @ [Lot_Acceptance_Confirmation sid (acceptedCount_of sid ?w1)
                                  (cfg_requested_quantity cfg) (user_id u)]
            else n8n_posts ?w1)"
      by (rule trigger_posts [OF h(1) h2 h(3) h4 h(5)])
    show ?thesis
      unfolding second acceptedCount_of_trigger first by simp
  qed
  show ?thesis
    using posts by (simp add: trigger_keeps_tables)
qed

text \<open>
  An order of one lot with one ACCEPTED assignment: two evaluations, two posts.
\<close>

theorem C3_trigger_not_once_witness:
  "\<not> env_fails (ex_env ''2024-05-09T08:00:00.000Z'') SalesInfoFetch
   \<and> single (filter (\<lambda>s. sale_id s = ''sale-1'')
        (sales_table (ex_world 1 [ex_lot ''lot-1'' SOLD 1] [ex_sale] [ex_assignment ''asg-1'' ''lot-1'' ACCEPTED])))
       = Some ex_sale
   \<and> \<not> env_fails (ex_env ''2024-05-09T08:00:00.000Z'') AcceptedLotsFetch
   \<and> find (\<lambda>c. cfg_id c = sale_config_id ex_sale)
        (sales_configuration (ex_world 1 [ex_lot ''lot-1'' SOLD 1] [ex_sale] [ex_assignment ''asg-1'' ''lot-1'' ACCEPTED]))
       = Some (ex_config 1)
   \<and> \<not> env_fails (ex_env ''2024-05-09T08:00:00.000Z'') WebhookPost
   \<and> cfg_requested_quantity (ex_config 1)
       \<le> acceptedCount_of ''sale-1''
            (ex_world 1 [ex_lot ''lot-1'' SOLD 1] [ex_sale] [ex_assignment ''asg-1'' ''lot-1'' ACCEPTED])
   \<and> n8n_posts (checkAndTriggerConfirmation (ex_env ''2024-05-09T08:00:00.000Z'') ''sale-1'' ex_customer
        (checkAndTriggerConfirmation (ex_env ''2024-05-09T08:00:00.000Z'') ''sale-1'' ex_customer
          (ex_world 1 [ex_lot ''lot-1'' SOLD 1] [ex_sale] [ex_assignment ''asg-1'' ''lot-1'' ACCEPTED])))
       = (if cfg_requested_quantity (ex_config 1)
              \<le> acceptedCount_of ''sale-1''
                   (ex_world 1 [ex_lot ''lot-1'' SOLD 1] [ex_sale] [ex_assignment ''asg-1'' ''lot-1'' ACCEPTED])
          then n8n_posts (ex_world 1 [ex_lot ''lot-1'' SOLD 1] [ex_sale] [ex_assignment ''asg-1'' ''lot-1'' ACCEPTED])
               @ [Lot_Acceptance_Confirmation ''sale-1''
                    (acceptedCount_of ''sale-1''
                      (ex_world 1 [ex_lot ''lot-1'' SOLD 1] [ex_sale] [ex_assignment ''asg-1'' ''lot-1'' ACCEPTED]))
                    (cfg_requested_quantity (ex_config 1)) (user_id ex_customer),
                  Lot_Acceptance_Confirmation ''sale-1''
                    (acceptedCount_of ''sale-1''
                      (ex_world 1 [ex_lot ''lot-1'' SOLD 1] [ex_sale] [ex_assignment ''asg-1'' ''lot-1'' ACCEPTED]))
                    (cfg_requested_quantity (ex_config 1)) (user_id ex_customer)]
          else n8n_posts (ex_world 1 [ex_lot ''lot-1'' SOLD 1] [ex_sale] [ex_assignment ''asg-1'' ''lot-1'' ACCEPTED]))"
proof -
  let ?e = "ex_env ''2024-05-09T08:00:00.000Z''"
  let ?w = "ex_world 1 [ex_lot ''lot-1'' SOLD 1] [ex_sale] [ex_assignment ''asg-1'' ''lot-1'' ACCEPTED]"
  have h1: "\<not> env_fails ?e SalesInfoFetch" and h3: "\<not> env_fails ?e AcceptedLotsFetch"
    and h5: "\<not> env_fails ?e WebhookPost"
    by (simp_all add: ex_env_def)
  have h2: "single (filter (\<lambda>s. sale_id s = ''sale-1'') (sales_table ?w)) = Some ex_sale"
    by (simp add: single_def ex_world_def ex_sale_def)
  have h4: "find (\<lambda>c. cfg_id c = sale_config_id ex_sale) (sales_configuration ?w) = Some (ex_config 1)"
    by (simp add: ex_world_def ex_sale_def ex_config_def)
  have h6: "cfg_requested_quantity (ex_config 1) \<le> acceptedCount_of ''sale-1'' ?w"
    by (simp add: acceptedCount_of_def ex_world_def ex_config_def ex_assignment_def)
  note c = C3_trigger_not_once [of ?e "''sale-1''" ex_customer ?w ex_sale "ex_config 1",
      THEN conjunct2, THEN conjunct2, THEN conjunct2, THEN mp, OF conjI [OF h1 conjI [OF h2 conjI [OF h3 conjI [OF h4 h5]]]]]
  show ?thesis
    by (intro conjI h1 h2 h3 h4 h5 h6 c [THEN conjunct2])
qed

text \<open>
  Against claim C3 as stated: an order of one lot with two PENDING assignments. The customer
  accepts both, one call after the other; each accept posts a confirmation, and the sales
  record is still a DRAFT.
\<close>

theorem C3_counterexample:
  "n8n_posts (snd (accept (ex_env ''2024-05-09T08:00:00.000Z'') ex_customer ''asg-2''
      (snd (accept (ex_env ''2024-05-09T08:00:00.000Z'') ex_customer ''asg-1''
         (ex_world 1 [ex_lot ''lot-1'' BLOCKED 1, ex_lot ''lot-2'' BLOCKED 2] [ex_sale]
            [ex_assignment ''asg-1'' ''lot-1'' PENDING, ex_assignment ''asg-2'' ''lot-2'' PENDING])))))
     = [Lot_Acceptance_Confirmation ''sale-1'' 1 1 ''cust-1'',
        Lot_Acceptance_Confirmation ''sale-1'' 2 1 ''cust-1'']
   \<and> map sale_status (sales_table (snd (accept (ex_env ''2024-05-09T08:00:00.000Z'') ex_customer ''asg-2''
      (snd (accept (ex_env ''2024-05-09T08:00:00.000Z'') ex_customer ''asg-1''
         (ex_world 1 [ex_lot ''lot-1'' BLOCKED 1, ex_lot ''lot-2'' BLOCKED 2] [ex_sale]
            [ex_assignment ''asg-1'' ''lot-1'' PENDING, ex_assignment ''asg-2'' ''lot-2'' PENDING]))))))
     = [DRAFT]"
  by code_simp

subsection \<open>Customer responses\<close>







lemma accept_found:
  "fetch_assignment e aid w = Some a \<Longrightarrow>
   customerId_of e u w \<noteq> Some (asg_customer_id a) \<or> asg_window_end_date a < currentDate e
     \<or> asg_lot_status a \<noteq> PENDING \<Longrightarrow>
   accept e u aid w =
     (Inl (if customerId_of e u w \<noteq> Some (asg_customer_id a) then Forbidden
           else if asg_window_end_date a < currentDate e then WindowExpired
           else AlreadyResolved), w)"
  by (auto simp: accept_def)

lemma reject_found:
  "fetch_assignment e aid w = Some a \<Longrightarrow>
   customerId_of e u w \<noteq> Some (asg_customer_id a) \<or> asg_window_end_date a < currentDate e
     \<or> asg_lot_status a \<noteq> PENDING \<Longrightarrow>
   reject e u aid w =
     (Inl (if customerId_of e u w \<noteq> Some (asg_customer_id a) then Forbidden
           else if asg_window_end_date a < currentDate e then WindowExpired
           else AlreadyResolved), w)"
  by (auto simp: reject_def)

lemma http_error_distinct:
  "Forbidden \<noteq> WindowExpired" "AlreadyResolved \<noteq> WindowExpired" "NotFound \<noteq> WindowExpired"
  "Err 500 ''Failed to update assignment'' \<noteq> WindowExpired" "WindowExpired \<noteq> AlreadyResolved"
  "WindowExpired \<noteq> Forbidden"
  by (simp_all add: Forbidden_def WindowExpired_def AlreadyResolved_def NotFound_def)

lemma accept_WindowExpired_iff:
  assumes found: "fetch_assignment e aid w = Some a"
  shows "(fst (accept e u aid w) = Inl WindowExpired) =
           (customerId_of e u w = Some (asg_customer_id a) \<and> asg_window_end_date a < currentDate e)"
  using found by (simp add: accept_def Let_def http_error_distinct)

lemma reject_WindowExpired_iff:
  assumes found: "fetch_assignment e aid w = Some a"
  shows "(fst (reject e u aid w) = Inl WindowExpired) =
           (customerId_of e u w = Some (asg_customer_id a) \<and> asg_window_end_date a < currentDate e)"
  using found by (simp add: reject_def Let_def http_error_distinct)



text \<open>
  Claim C4, as the handlers have it. A respond call (accept or reject) on an assignment that
  is found and whose status is ACCEPTED, REJECTED or EXPIRED always fails and writes nothing.
  The error is that of the first failing check, in the handlers' order: not authorised when
  the caller is not the assignment's customer, window expired when the current date is after
  \<^verbatim>\<open>window_end_date\<close>, and only then already responded.
\<close>

theorem C4_terminal_respond:
  assumes found: "fetch_assignment e aid w = Some a"
      and terminal: "asg_lot_status a = ACCEPTED \<or> asg_lot_status a = REJECTED \<or> asg_lot_status a = EXPIRED"
  shows "accept e u aid w =
           (Inl (if customerId_of e u w \<noteq> Some (asg_customer_id a) then Forbidden
                 else if asg_window_end_date a < currentDate e then WindowExpired
                 else AlreadyResolved), w)
       \<and> reject e u aid w =
           (Inl (if customerId_of e u w \<noteq> Some (asg_customer_id a) then Forbidden
                 else if asg_window_end_date a < currentDate e then WindowExpired
                 else AlreadyResolved), w)"
proof -
  from terminal have "asg_lot_status a \<noteq> PENDING" by auto
  then show ?thesis
    using accept_found [OF found, of u] reject_found [OF found, of u] by blast
qed

text \<open>
  An ACCEPTED assignment, the day before its window ends: its customer gets the
  already-responded error, another user the not-authorised one.
\<close>

theorem C4_terminal_respond_witness:
  "fetch_assignment (ex_env ''2024-05-09T08:00:00.000Z'') ''asg-1''
       (ex_world 2 [ex_lot ''lot-1'' SOLD 1] [ex_sale] [ex_assignment ''asg-1'' ''lot-1'' ACCEPTED])
     = Some (ex_assignment ''asg-1'' ''lot-1'' ACCEPTED)
   \<and> (asg_lot_status (ex_assignment ''asg-1'' ''lot-1'' ACCEPTED) = ACCEPTED
      \<or> asg_lot_status (ex_assignment ''asg-1'' ''lot-1'' ACCEPTED) = REJECTED
      \<or> asg_lot_status (ex_assignment ''asg-1'' ''lot-1'' ACCEPTED) = EXPIRED)
   \<and> accept (ex_env ''2024-05-09T08:00:00.000Z'') ex_customer ''asg-1''
       (ex_world 2 [ex_lot ''lot-1'' SOLD 1] [ex_sale] [ex_assignment ''asg-1'' ''lot-1'' ACCEPTED])
     = (Inl AlreadyResolved,
        ex_world 2 [ex_lot ''lot-1'' SOLD 1] [ex_sale] [ex_assignment ''asg-1'' ''lot-1'' ACCEPTED])
   \<and> reject (ex_env ''2024-05-09T08:00:00.000Z'') ex_stranger ''asg-1''
       (ex_world 2 [ex_lot ''lot-1'' SOLD 1] [ex_sale] [ex_assignment ''asg-1'' ''lot-1'' ACCEPTED])
     = (Inl Forbidden,
        ex_world 2 [ex_lot ''lot-1'' SOLD 1] [ex_sale] [ex_assignment ''asg-1'' ''lot-1'' ACCEPTED])"
proof -
  let ?e = "ex_env ''2024-05-09T08:00:00.000Z''"
  let ?a = "ex_assignment ''asg-1'' ''lot-1'' ACCEPTED"
  let ?w = "ex_world 2 [ex_lot ''lot-1'' SOLD 1] [ex_sale] [?a]"
  have h1: "fetch_assignment ?e ''asg-1'' ?w = Some ?a"
    by (simp add: fetch_assignment_def single_def ex_defs)
  have h2: "asg_lot_status ?a = ACCEPTED \<or> asg_lot_status ?a = REJECTED \<or> asg_lot_status ?a = EXPIRED"
    by (simp add: ex_defs)
  have owner: "customerId_of ?e ex_customer ?w = Some (asg_customer_id ?a)"
    by (simp add: customerId_of_def ex_defs)
  have stranger: "customerId_of ?e ex_stranger ?w \<noteq> Some (asg_customer_id ?a)"
    by (simp add: customerId_of_def ex_defs)
  have inside: "\<not> asg_window_end_date ?a < currentDate ?e"
    by (simp add: currentDate_def ex_defs)
  have c1: "accept ?e ex_customer ''asg-1'' ?w = (Inl AlreadyResolved, ?w)"
    using C4_terminal_respond [OF h1 h2, of ex_customer, THEN conjunct1]
    by (simp only: owner inside if_True if_False not_not not_False_eq_True not_True_eq_False simp_thms)
  have c2: "reject ?e ex_stranger ''asg-1'' ?w = (Inl Forbidden, ?w)"
    using C4_terminal_respond [OF h1 h2, of ex_stranger, THEN conjunct2]
    by (simp only: stranger if_True if_False not_not not_False_eq_True not_True_eq_False simp_thms)
  show ?thesis
    by (intro conjI h1 h2 c1 c2)
qed

text \<open>
  Against claim C4 as stated: an EXPIRED assignment, the day after its window ended. Its
  own customer's accept is refused with the window-expired error, not the already-responded
  one.
\<close>

theorem C4_counterexample:
  "asg_lot_status (ex_assignment ''asg-1'' ''lot-1'' EXPIRED) = EXPIRED
   \<and> fst (accept (ex_env ''2024-05-11T09:30:00.000Z'') ex_customer ''asg-1''
       (ex_world 2 [ex_lot ''lot-1'' AVAILABLE 1] [ex_sale] [ex_assignment ''asg-1'' ''lot-1'' EXPIRED]))
     = Inl WindowExpired
   \<and> WindowExpired \<noteq> AlreadyResolved"
  by (simp add: accept_def fetch_assignment_def single_def customerId_of_def currentDate_def
        WindowExpired_def AlreadyResolved_def Forbidden_def ex_defs)

subsection \<open>Expiry\<close>










lemma customer_lots_active:
  assumes cust: "customerId_of e u w = Some c"
      and store: "\<not> env_fails e AssignmentsFetch"
  shows "\<exists>d. fst (customer_lots e u w) = Inr d \<and>
          active d = filter (\<lambda>a. isPending a \<and> isWithinWindow e a)
            (rev (sort_key asg_assigned_at
               (filter (\<lambda>x. asg_customer_id x = c) (customer_assignment_table w))))"
  unfolding customer_lots_def using cust store
  by (simp add: Let_def)



subsection \<open>Calendar dates\<close>

lemma digit_less: "a < 10 \<Longrightarrow> b < 10 \<Longrightarrow> (digit_char a < digit_char b) = (a < b)"
  by (simp add: digit_char_def less_char_def)

lemma digit_eq: "a < 10 \<Longrightarrow> b < 10 \<Longrightarrow> (digit_char a = digit_char b) = (a = b)"
  by (simp add: digit_char_def char_of_eq_iff take_bit_eq_mod)

lemma length_pad: "length (pad n k) = n"
  by (induction n arbitrary: k) simp_all

lemma append_less_same_length:
  "length xs = length ys \<Longrightarrow> (xs @ us < ys @ vs) = (xs < ys \<or> xs = ys \<and> us < (vs :: 'a :: linorder list))"
  by (induction xs ys rule: list_induct2) auto

lemma append_eq_same_length:
  "length xs = length ys \<Longrightarrow> (xs @ us = ys @ vs) = (xs = ys \<and> us = vs)"
  by simp

lemma two_digits:
  "al < 10 \<Longrightarrow> bl < 10 \<Longrightarrow>
   (ah < bh \<or> ah = bh \<and> al < bl) = (10 * ah + al < 10 * bh + (bl :: nat))"
  by arith

lemma pad_order:
  "a < 10 ^ n \<Longrightarrow> b < 10 ^ n \<Longrightarrow> (pad n a < pad n b) = (a < b) \<and> (pad n a = pad n b) = (a = b)"
proof (induction n arbitrary: a b)
  case 0
  then show ?case by simp
next
  case (Suc n)
  have da: "a div 10 < 10 ^ n" and db: "b div 10 < 10 ^ n"
    using Suc.prems by (simp_all add: less_mult_imp_div_less mult.commute)
  note IH = Suc.IH [OF da db]
  have ma: "a mod 10 < 10" and mb: "b mod 10 < 10" by simp_all
  have a: "a = 10 * (a div 10) + a mod 10" and b: "b = 10 * (b div 10) + b mod 10" by simp_all
  have "(pad (Suc n) a < pad (Suc n) b)
        = (a div 10 < b div 10 \<or> a div 10 = b div 10 \<and> a mod 10 < b mod 10)"
    by (simp add: append_less_same_length length_pad IH digit_less)
  also have "\<dots> = (10 * (a div 10) + a mod 10 < 10 * (b div 10) + b mod 10)"
    by (rule two_digits [OF ma mb])
  also have "\<dots> = (a < b)" by simp
  finally have less: "(pad (Suc n) a < pad (Suc n) b) = (a < b)" .
  have "(pad (Suc n) a = pad (Suc n) b) = (a div 10 = b div 10 \<and> a mod 10 = b mod 10)"
    by (simp add: length_pad IH digit_eq)
  also have "\<dots> = (a = b)"
    by (metis a b)
  finally have eq: "(pad (Suc n) a = pad (Suc n) b) = (a = b)" .
  from less eq show ?case by simp
qed

lemma toISODate_less:
  assumes "y < 10000" "y' < 10000" "m < 100" "m' < 100" "d < 100" "d' < 100"
  shows "(toISODate y m d < toISODate y' m' d') = (y < y' \<or> y = y' \<and> (m < m' \<or> m = m' \<and> d < d'))"
proof -
  have y: "(pad 4 y < pad 4 y') = (y < y')" "(pad 4 y = pad 4 y') = (y = y')"
    using pad_order [of y 4 y'] assms by simp_all
  have m: "(pad 2 m < pad 2 m') = (m < m')" "(pad 2 m = pad 2 m') = (m = m')"
    using pad_order [of m 2 m'] assms by simp_all
  have d: "(pad 2 d < pad 2 d') = (d < d')"
    using pad_order [of d 2 d'] assms by simp
  show ?thesis
    unfolding toISODate_def
    by (simp only: append_less_same_length length_pad y m d append_Cons append_Nil
          Cons_less_Cons order_less_irrefl simp_thms)
qed

lemma takeWhile_stop: "c \<notin> set xs \<Longrightarrow> takeWhile (\<lambda>x. x \<noteq> c) (xs @ c # ys) = xs"
  by (induction xs) auto

lemma currentDate_split:
  "env_now e = day @ CHR ''T'' # time \<Longrightarrow> CHR ''T'' \<notin> set day \<Longrightarrow> currentDate e = day"
  by (simp add: currentDate_def takeWhile_stop)

text \<open>
  Claim C10. The clock reads \<open>day\<close>, then \<^verbatim>\<open>T\<close>, then any time of day; the handlers keep
  \<open>day\<close> only. Accept and reject answer window expired exactly when the caller is the
  assignment's customer and \<^verbatim>\<open>window_end_date\<close> is before \<open>day\<close> as a string, so never on
  the end date itself; the listing's \<^verbatim>\<open>isWithinWindow\<close> is \<open>day \<le> window_end_date\<close>, and a
  PENDING assignment of the customer is listed as active up to and on that date. For dates
  printed as \<^verbatim>\<open>YYYY-MM-DD\<close> the string order is the order of the calendar, so expiry starts
  the day after the end date.
\<close>

theorem C10_calendar_dates:
  assumes clock: "env_now e = day @ CHR ''T'' # time"
      and day: "CHR ''T'' \<notin> set day"
      and found: "fetch_assignment e aid w = Some a"
  shows "currentDate e = day
       \<and> (fst (accept e u aid w) = Inl WindowExpired) =
           (customerId_of e u w = Some (asg_customer_id a) \<and> asg_window_end_date a < day)
       \<and> (fst (reject e u aid w) = Inl WindowExpired) =
           (customerId_of e u w = Some (asg_customer_id a) \<and> asg_window_end_date a < day)
       \<and> (asg_window_end_date a = day \<longrightarrow>
            fst (accept e u aid w) \<noteq> Inl WindowExpired \<and> fst (reject e u aid w) \<noteq> Inl WindowExpired)
       \<and> isWithinWindow e a = (day \<le> asg_window_end_date a)
       \<and> (asg_lot_status a = PENDING \<longrightarrow> customerId_of e u w = Some (asg_customer_id a) \<longrightarrow>
            \<not> env_fails e AssignmentsFetch \<longrightarrow> day \<le> asg_window_end_date a \<longrightarrow>
            (\<exists>d. fst (customer_lots e u w) = Inr d \<and> a \<in> set (active d)))
       \<and> (\<forall>y m d y' m' d'. y < 10000 \<and> m < 100 \<and> d < 100 \<and> y' < 10000 \<and> m' < 100 \<and> d' < 100
             \<and> day = toISODate y m d \<and> asg_window_end_date a = toISODate y' m' d' \<longrightarrow>
            (asg_window_end_date a < day) = (y' < y \<or> y' = y \<and> (m' < m \<or> m' = m \<and> d' < d)))"
proof -
  have cd: "currentDate e = day"
    by (rule currentDate_split [OF clock day])
  have acc: "(fst (accept e u aid w) = Inl WindowExpired) =
           (customerId_of e u w = Some (asg_customer_id a) \<and> asg_window_end_date a < day)"
    using accept_WindowExpired_iff [OF found, of u] by (simp only: cd)
  have rej: "(fst (reject e u aid w) = Inl WindowExpired) =
           (customerId_of e u w = Some (asg_customer_id a) \<and> asg_window_end_date a < day)"
    using reject_WindowExpired_iff [OF found, of u] by (simp only: cd)
  have same: "asg_window_end_date a = day \<longrightarrow>
            fst (accept e u aid w) \<noteq> Inl WindowExpired \<and> fst (reject e u aid w) \<noteq> Inl WindowExpired"
    by (simp add: acc rej)
  have within: "isWithinWindow e a = (day \<le> asg_window_end_date a)"
    by (simp add: isWithinWindow_def cd)
  have listing: "\<exists>d. fst (customer_lots e u w) = Inr d \<and> a \<in> set (active d)"
    if pending: "asg_lot_status a = PENDING"
      and cust: "customerId_of e u w = Some (asg_customer_id a)"
      and store: "\<not> env_fails e AssignmentsFetch"
      and le: "day \<le> asg_window_end_date a"
  proof -
    from customer_lots_active [OF cust store] obtain d where
      d: "fst (customer_lots e u w) = Inr d"
         "active d = filter (\<lambda>a. isPending a \<and> isWithinWindow e a)
            (rev (sort_key asg_assigned_at
               (filter (\<lambda>x. asg_customer_id x = asg_customer_id a) (customer_assignment_table w))))"
      by blast
    from fetch_assignment_mem [OF found] have mem: "a \<in> set (customer_assignment_table w)" by simp
    have "a \<in> set (active d)"
      unfolding d(2) using mem pending le by (simp add: isPending_def within)
    with d(1) show ?thesis by blast
  qed
  have iso: "\<forall>y m d y' m' d'. y < 10000 \<and> m < 100 \<and> d < 100 \<and> y' < 10000 \<and> m' < 100 \<and> d' < 100
             \<and> day = toISODate y m d \<and> asg_window_end_date a = toISODate y' m' d' \<longrightarrow>
            (asg_window_end_date a < day) = (y' < y \<or> y' = y \<and> (m' < m \<or> m' = m \<and> d' < d))"
    by (simp add: toISODate_less)
  from cd acc rej same within listing iso show ?thesis by blast
qed

text \<open>
  One millisecond before midnight on the end date 2024-05-10: both handlers pass the
  window check and the listing shows the assignment as active.
\<close>

theorem C10_calendar_dates_witness:
  "env_now (ex_env ''2024-05-10T23:59:59.999Z'') = ''2024-05-10'' @ CHR ''T'' # ''23:59:59.999Z''
   \<and> CHR ''T'' \<notin> set ''2024-05-10''
   \<and> fetch_assignment (ex_env ''2024-05-10T23:59:59.999Z'') ''asg-1''
       (ex_world 2 [ex_lot ''lot-1'' BLOCKED 1] [ex_sale] [ex_assignment ''asg-1'' ''lot-1'' PENDING])
     = Some (ex_assignment ''asg-1'' ''lot-1'' PENDING)
   \<and> currentDate (ex_env ''2024-05-10T23:59:59.999Z'') = ''2024-05-10''
   \<and> asg_window_end_date (ex_assignment ''asg-1'' ''lot-1'' PENDING) = ''2024-05-10''
   \<and> fst (accept (ex_env ''2024-05-10T23:59:59.999Z'') ex_customer ''asg-1''
       (ex_world 2 [ex_lot ''lot-1'' BLOCKED 1] [ex_sale] [ex_assignment ''asg-1'' ''lot-1'' PENDING]))
     \<noteq> Inl WindowExpired
   \<and> fst (reject (ex_env ''2024-05-10T23:59:59.999Z'') ex_customer ''asg-1''
       (ex_world 2 [ex_lot ''lot-1'' BLOCKED 1] [ex_sale] [ex_assignment ''asg-1'' ''lot-1'' PENDING]))
     \<noteq> Inl WindowExpired
   \<and> asg_lot_status (ex_assignment ''asg-1'' ''lot-1'' PENDING) = PENDING
   \<and> customerId_of (ex_env ''2024-05-10T23:59:59.999Z'') ex_customer
       (ex_world 2 [ex_lot ''lot-1'' BLOCKED 1] [ex_sale] [ex_assignment ''asg-1'' ''lot-1'' PENDING])
     = Some (asg_customer_id (ex_assignment ''asg-1'' ''lot-1'' PENDING))
   \<and> \<not> env_fails (ex_env ''2024-05-10T23:59:59.999Z'') AssignmentsFetch
   \<and> ''2024-05-10'' \<le> asg_window_end_date (ex_assignment ''asg-1'' ''lot-1'' PENDING)
   \<and> (\<exists>d. fst (customer_lots (ex_env ''2024-05-10T23:59:59.999Z'') ex_customer
         (ex_world 2 [ex_lot ''lot-1'' BLOCKED 1] [ex_sale] [ex_assignment ''asg-1'' ''lot-1'' PENDING]))
          = Inr d \<and> ex_assignment ''asg-1'' ''lot-1'' PENDING \<in> set (active d))
   \<and> ''2024-05-10'' = toISODate 2024 5 10
   \<and> (asg_window_end_date (ex_assignment ''asg-1'' ''lot-1'' PENDING) < ''2024-05-10'')
      = ((2024::nat) < 2024 \<or> (2024::nat) = 2024 \<and> ((5::nat) < 5 \<or> (5::nat) = 5 \<and> (10::nat) < 10))"
proof -
  let ?e = "ex_env ''2024-05-10T23:59:59.999Z''"
  let ?a = "ex_assignment ''asg-1'' ''lot-1'' PENDING"
  let ?w = "ex_world 2 [ex_lot ''lot-1'' BLOCKED 1] [ex_sale] [?a]"
  have h1: "env_now ?e = ''2024-05-10'' @ CHR ''T'' # ''23:59:59.999Z''"
    by (simp add: ex_env_def)
  have h2: "CHR ''T'' \<notin> set ''2024-05-10''"
    by simp
  have h3: "fetch_assignment ?e ''asg-1'' ?w = Some ?a"
    by (simp add: fetch_assignment_def single_def ex_defs)
  have h4: "asg_window_end_date ?a = ''2024-05-10''"
    by (simp add: ex_assignment_def)
  have h5: "asg_lot_status ?a = PENDING"
    by (simp add: ex_assignment_def)
  have h6: "customerId_of ?e ex_customer ?w = Some (asg_customer_id ?a)"
    by (simp add: customerId_of_def ex_defs)
  have h7: "\<not> env_fails ?e AssignmentsFetch"
    by (simp add: ex_env_def)
  have h8: "''2024-05-10'' \<le> asg_window_end_date ?a"
    by (simp add: ex_assignment_def)
  have h9: "''2024-05-10'' = toISODate 2024 5 10"
    by code_simp
  have h10: "asg_window_end_date ?a = toISODate 2024 5 10"
    by (simp only: h4 h9)
  note c = C10_calendar_dates [OF h1 h2 h3, of ex_customer]
  note c1 = c [THEN conjunct1]
  note c4 = c [THEN conjunct2, THEN conjunct2, THEN conjunct2, THEN conjunct1, THEN mp, OF h4]
  note c6 = c [THEN conjunct2, THEN conjunct2, THEN conjunct2, THEN conjunct2, THEN conjunct2,
               THEN conjunct1, THEN mp, THEN mp, THEN mp, THEN mp, OF h5 h6 h7 h8]
  note c7 = c [THEN conjunct2, THEN conjunct2, THEN conjunct2, THEN conjunct2, THEN conjunct2,
               THEN conjunct2, THEN spec, THEN spec, THEN spec, THEN spec, THEN spec, THEN spec,
               of 2024 5 10 2024 5 10, THEN mp]
  have c7': "(asg_window_end_date ?a < ''2024-05-10'')
      = ((2024::nat) < 2024 \<or> (2024::nat) = 2024 \<and> ((5::nat) < 5 \<or> (5::nat) = 5 \<and> (10::nat) < 10))"
    by (rule c7) (intro conjI h9 h10; simp)
  show ?thesis
    by (intro conjI h1 h2 h3 c1 h4 c4 [THEN conjunct1] c4 [THEN conjunct2] h5 h6 h7 h8 c6 h9 c7')
qed

end
